theory Spec2Isabelle
  imports Complex_Main
begin

section \<open>Data model of \<^verbatim>\<open>src/spectral/fft.c\<close>\<close>

text \<open>
  Samples (\<^verbatim>\<open>smpl_t\<close>, \<^verbatim>\<open>real_t\<close>) are modelled as mathematical reals and the complex
  engine data (\<^verbatim>\<open>fft_data_t\<close>) as mathematical complex numbers: rounding is outside the model.
  Unsigned indices (\<^verbatim>\<open>uint_t\<close>) are naturals; every theorem below carries the length
  preconditions under which no index expression of the source wraps around or leaves its
  array, and outside of them the C code has no defined behaviour.

  Both builds are modelled: the one with \<^verbatim>\<open>HAVE_COMPLEX_H\<close> defined (native complex engine
  output, \<^verbatim>\<open>fft_data_t\<close> complex), under the source's names, and the one without it (raw
  half-complex engine output, \<^verbatim>\<open>fft_data_t\<close> real), whose functions carry the suffix \<open>_hc\<close>.
\<close>

type_synonym smpl_t = real

text \<open>
  Modelled from the spec: the frame container \<^verbatim>\<open>fvec_t\<close> (declared in \<^verbatim>\<open>fvec.h\<close>): a
  real-valued ordered sequence and its length.
\<close>

record fvec_t =
  length_v :: nat
  data :: "smpl_t list"

text \<open>
  Modelled from the spec: the polar spectrum container \<^verbatim>\<open>cvec_t\<close> (declared in \<^verbatim>\<open>cvec.h\<close>):
  two real-valued sequences \<^verbatim>\<open>norm\<close> and \<^verbatim>\<open>phas\<close> of equal length, and that length.
\<close>

record cvec_t =
  length_c :: nat
  norm_c :: "smpl_t list"
  phas :: "smpl_t list"

definition fvec_ok :: "nat \<Rightarrow> fvec_t \<Rightarrow> bool" where
  "fvec_ok n v = (length_v v = n \<and> length (data v) = n)"

definition cvec_ok :: "nat \<Rightarrow> cvec_t \<Rightarrow> bool" where
  "cvec_ok n c = (length_c c = n \<and> length (norm_c c) = n \<and> length (phas c) = n)"

subsection \<open>Math macros\<close>

text \<open>
  Modelled from the spec: the math macros of \<^verbatim>\<open>aubio_priv.h\<close>. \<^verbatim>\<open>PI\<close>, \<^verbatim>\<open>ABS\<close>, \<^verbatim>\<open>SQRT\<close>,
  \<^verbatim>\<open>SIN\<close> and \<^verbatim>\<open>COS\<close> are the real functions \<open>pi\<close>, \<open>abs\<close>, \<open>sqrt\<close>, \<open>sin\<close> and \<open>cos\<close>;
  \<^verbatim>\<open>SQR\<close> is the square; \<^verbatim>\<open>ATAN2\<close> is the standard two-argument arctangent, first
  argument the ordinate, second the abscissa, written out by quadrant, with value \<open>0\<close> at
  the origin.
\<close>

definition ATAN2 :: "real \<Rightarrow> real \<Rightarrow> real" where
  "ATAN2 y x =
     (if 0 < x then arctan (y / x)
      else if x < 0 then (if 0 \<le> y then arctan (y / x) + pi else arctan (y / x) - pi)
      else if 0 < y then pi / 2
      else if y < 0 then - (pi / 2)
      else 0)"

definition SQR :: "real \<Rightarrow> real" where
  "SQR x = x * x"

subsection \<open>Counted loops\<close>

text \<open>The C loop \<^verbatim>\<open>for (j = a; j < n; j++) body\<close>, the state threaded through the body.\<close>

function for_loop :: "nat \<Rightarrow> nat \<Rightarrow> (nat \<Rightarrow> 's \<Rightarrow> 's) \<Rightarrow> 's \<Rightarrow> 's" where
  "for_loop j n body s = (if j < n then for_loop (Suc j) n body (body j s) else s)"
  by pat_completeness auto
termination
  by (relation "measure (\<lambda>(j, n, body, s). n - j)") auto

declare for_loop.simps [simp del]

section \<open>Conversions between the packed and the polar spectrum\<close>

definition aubio_fft_get_phas :: "fvec_t \<Rightarrow> cvec_t \<Rightarrow> cvec_t" where
  "aubio_fft_get_phas compspec spectrum =
     (let sp1 = (if data compspec ! 0 < 0
                 then spectrum\<lparr>phas := (phas spectrum)[0 := pi]\<rparr>
                 else spectrum\<lparr>phas := (phas spectrum)[0 := 0]\<rparr>);
          sp2 = for_loop 1 (length_c sp1 - 1)
                  (\<lambda>j sp. sp\<lparr>phas := (phas sp)[j :=
                     ATAN2 (data compspec ! (length_v compspec - j)) (data compspec ! j)]\<rparr>)
                  sp1
      in if data compspec ! (length_v compspec div 2) < 0
         then sp2\<lparr>phas := (phas sp2)[length_c sp2 - 1 := pi]\<rparr>
         else sp2\<lparr>phas := (phas sp2)[length_c sp2 - 1 := 0]\<rparr>)"

definition aubio_fft_get_norm :: "fvec_t \<Rightarrow> cvec_t \<Rightarrow> cvec_t" where
  "aubio_fft_get_norm compspec spectrum =
     (let sp1 = spectrum\<lparr>norm_c := (norm_c spectrum)[0 := \<bar>data compspec ! 0\<bar>]\<rparr>;
          sp2 = for_loop 1 (length_c sp1 - 1)
                  (\<lambda>j sp. sp\<lparr>norm_c := (norm_c sp)[j :=
                     sqrt (SQR (data compspec ! j)
                           + SQR (data compspec ! (length_v compspec - j)))]\<rparr>)
                  sp1
      in sp2\<lparr>norm_c := (norm_c sp2)[length_c sp2 - 1 :=
                \<bar>data compspec ! (length_v compspec div 2)\<bar>]\<rparr>)"

definition aubio_fft_get_spectrum :: "fvec_t \<Rightarrow> cvec_t \<Rightarrow> cvec_t" where
  "aubio_fft_get_spectrum compspec spectrum =
     aubio_fft_get_norm compspec (aubio_fft_get_phas compspec spectrum)"

definition aubio_fft_get_imag :: "cvec_t \<Rightarrow> fvec_t \<Rightarrow> fvec_t" where
  "aubio_fft_get_imag spectrum compspec =
     for_loop 1 ((length_v compspec + 1) div 2)
       (\<lambda>j c. c\<lparr>data := (data c)[length_v c - j :=
          norm_c spectrum ! j * sin (phas spectrum ! j)]\<rparr>)
       compspec"

definition aubio_fft_get_real :: "cvec_t \<Rightarrow> fvec_t \<Rightarrow> fvec_t" where
  "aubio_fft_get_real spectrum compspec =
     for_loop 0 (length_v compspec div 2 + 1)
       (\<lambda>j c. c\<lparr>data := (data c)[j :=
          norm_c spectrum ! j * cos (phas spectrum ! j)]\<rparr>)
       compspec"

definition aubio_fft_get_realimag :: "cvec_t \<Rightarrow> fvec_t \<Rightarrow> fvec_t" where
  "aubio_fft_get_realimag spectrum compspec =
     aubio_fft_get_real spectrum (aubio_fft_get_imag spectrum compspec)"

section \<open>The transform engine and the instance\<close>

subsection \<open>The transform engine\<close>

text \<open>
  A plan handle records the direction and the size it was planned for; \<open>None\<close> is the
  null handle the planner returns for a size it rejects.
\<close>

datatype fftw_kind = R2C | C2R

type_synonym fftw_plan = "(fftw_kind \<times> nat) option"

text \<open>
  Modelled from the spec: the planner of the external engine (\<^verbatim>\<open>fftw3.h\<close>). Which sizes it
  accepts is a parameter; it returns the null handle for the others.
\<close>

definition fftw_plan_dft_r2c_1d :: "(nat \<Rightarrow> bool) \<Rightarrow> nat \<Rightarrow> fftw_plan" where
  "fftw_plan_dft_r2c_1d accepts n = (if accepts n then Some (R2C, n) else None)"

definition fftw_plan_dft_c2r_1d :: "(nat \<Rightarrow> bool) \<Rightarrow> nat \<Rightarrow> fftw_plan" where
  "fftw_plan_dft_c2r_1d accepts n = (if accepts n then Some (C2R, n) else None)"

text \<open>
  Modelled from the spec: a planner that accepts every positive size and rejects size \<open>0\<close>,
  used where a concrete planner is needed.
\<close>

definition fftw_accepts :: "nat \<Rightarrow> bool" where
  "fftw_accepts n = (0 < n)"

text \<open>
  Modelled from the spec: the engine's forward real-to-half-complex transform, the exact
  unnormalized discrete Fourier transform (\<open>dft\<close>, bin \<open>k\<close> of a frame of \<open>n\<close> samples), of
  which the engine returns the bins \<open>0\<close> to \<open>n div 2\<close>.
\<close>

definition dft :: "nat \<Rightarrow> real list \<Rightarrow> nat \<Rightarrow> complex" where
  "dft n x k = (\<Sum>m<n. complex_of_real (x ! m) * cis (- (2 * pi * real k * real m / real n)))"

definition fftw_r2c :: "nat \<Rightarrow> real list \<Rightarrow> complex list" where
  "fftw_r2c n x = map (dft n x) [0..<n div 2 + 1]"

text \<open>
  Modelled from the spec: the engine's inverse half-complex-to-real transform, the exact
  unnormalized inverse transform of the conjugate-symmetric extension of bins \<open>0\<close> to
  \<open>n div 2\<close>.
\<close>

definition hermitian :: "nat \<Rightarrow> complex list \<Rightarrow> nat \<Rightarrow> complex" where
  "hermitian n X k = (if k \<le> n div 2 then X ! k else cnj (X ! (n - k)))"

definition fftw_c2r :: "nat \<Rightarrow> complex list \<Rightarrow> real list" where
  "fftw_c2r n X =
     map (\<lambda>m. Re (\<Sum>k<n. hermitian n X k * cis (2 * pi * real k * real m / real n)))
       [0..<n]"

text \<open>
  Modelled from the spec: the engine in raw half-complex mode (\<^verbatim>\<open>fftw_plan_r2r_1d\<close> with the
  kinds \<^verbatim>\<open>FFTW_R2HC\<close> and \<^verbatim>\<open>FFTW_HC2R\<close>). The forward transform returns \<open>n\<close> reals: the
  real parts of the bins \<open>0\<close> to \<open>n div 2\<close> at their own index, the imaginary part of bin \<open>k\<close>
  at index \<open>n - k\<close>. The inverse transform reads the bins back from that layout.
\<close>

datatype fftw_r2r_kind = FFTW_R2HC | FFTW_HC2R

type_synonym fftw_r2r_plan = "(fftw_r2r_kind \<times> nat) option"

definition fftw_plan_r2r_1d :: "(nat \<Rightarrow> bool) \<Rightarrow> nat \<Rightarrow> fftw_r2r_kind \<Rightarrow> fftw_r2r_plan" where
  "fftw_plan_r2r_1d accepts n kind = (if accepts n then Some (kind, n) else None)"

definition fftw_r2hc :: "nat \<Rightarrow> real list \<Rightarrow> real list" where
  "fftw_r2hc n x =
     map (\<lambda>i. if i \<le> n div 2 then Re (dft n x i) else Im (dft n x (n - i))) [0..<n]"

definition halfcomplex_bins :: "nat \<Rightarrow> real list \<Rightarrow> complex list" where
  "halfcomplex_bins n h =
     map (\<lambda>k. if k = 0 \<or> 2 * k = n then complex_of_real (h ! k)
              else complex_of_real (h ! k) + \<i> * complex_of_real (h ! (n - k)))
       [0..<n div 2 + 1]"

definition fftw_hc2r :: "nat \<Rightarrow> real list \<Rightarrow> real list" where
  "fftw_hc2r n h = fftw_c2r n (halfcomplex_bins n h)"

subsection \<open>The instance\<close>

text \<open>
  The type \<open>'d\<close> is \<^verbatim>\<open>fft_data_t\<close> (complex or real, by build) and \<open>'k\<close> the kind of plan
  the build creates.
\<close>

record ('d, 'k) aubio_fft_t =
  winsize :: nat
  fft_size :: nat
  in_buf :: "real list"
  out_buf :: "real list"
  pfw :: "('k \<times> nat) option"
  pbw :: "('k \<times> nat) option"
  specdata :: "'d list"
  compspec :: fvec_t

text \<open>
  \<^verbatim>\<open>fftw_execute\<close>: a forward plan reads \<^verbatim>\<open>in\<close> and writes \<^verbatim>\<open>specdata\<close>, a backward plan
  reads \<^verbatim>\<open>specdata\<close> and writes \<^verbatim>\<open>out\<close> (the arrays the plans were created on). Executing
  the null handle is a crash, the result \<open>None\<close>.
\<close>

fun fftw_execute ::
  "fftw_plan \<Rightarrow> (complex, fftw_kind) aubio_fft_t \<Rightarrow> (complex, fftw_kind) aubio_fft_t option" where
  "fftw_execute None s = None"
| "fftw_execute (Some (R2C, n)) s = Some (s\<lparr>specdata := fftw_r2c n (in_buf s)\<rparr>)"
| "fftw_execute (Some (C2R, n)) s = Some (s\<lparr>out_buf := fftw_c2r n (specdata s)\<rparr>)"

fun fftw_execute_hc ::
  "fftw_r2r_plan \<Rightarrow> (real, fftw_r2r_kind) aubio_fft_t
     \<Rightarrow> (real, fftw_r2r_kind) aubio_fft_t option" where
  "fftw_execute_hc None s = None"
| "fftw_execute_hc (Some (FFTW_R2HC, n)) s = Some (s\<lparr>specdata := fftw_r2hc n (in_buf s)\<rparr>)"
| "fftw_execute_hc (Some (FFTW_HC2R, n)) s = Some (s\<lparr>out_buf := fftw_hc2r n (specdata s)\<rparr>)"

section \<open>Forward and inverse transform\<close>

text \<open>
  \<^verbatim>\<open>aubio_fft_do_complex\<close> and \<^verbatim>\<open>aubio_fft_rdo_complex\<close> update the instance and the vector
  passed as third argument; both are returned.
\<close>

definition aubio_fft_do_complex ::
  "(complex, fftw_kind) aubio_fft_t \<Rightarrow> fvec_t \<Rightarrow> fvec_t
     \<Rightarrow> ((complex, fftw_kind) aubio_fft_t \<times> fvec_t) option" where
  "aubio_fft_do_complex s input cs =
     (let s1 = for_loop 0 (winsize s)
                 (\<lambda>j t. t\<lparr>in_buf := (in_buf t)[j := data input ! j]\<rparr>) s
      in case fftw_execute (pfw s1) s1 of
           None \<Rightarrow> None
         | Some s2 \<Rightarrow>
             (let c1 = cs\<lparr>data := (data cs)[0 := Re (specdata s2 ! 0)]\<rparr>;
                  c2 = for_loop 1 (fft_size s2 - 1)
                         (\<lambda>j c. (let c' = c\<lparr>data := (data c)[j := Re (specdata s2 ! j)]\<rparr>
                                 in c'\<lparr>data := (data c')[length_v c' - j :=
                                         Im (specdata s2 ! j)]\<rparr>))
                         c1;
                  c3 = c2\<lparr>data := (data c2)[fft_size s2 - 1 :=
                            Re (specdata s2 ! (fft_size s2 - 1))]\<rparr>
              in Some (s2, c3)))"

definition aubio_fft_rdo_complex ::
  "(complex, fftw_kind) aubio_fft_t \<Rightarrow> fvec_t \<Rightarrow> fvec_t
     \<Rightarrow> ((complex, fftw_kind) aubio_fft_t \<times> fvec_t) option" where
  "aubio_fft_rdo_complex s cs output =
     (let renorm = 1 / real (winsize s);
          s1 = s\<lparr>specdata := (specdata s)[0 := complex_of_real (data cs ! 0)]\<rparr>;
          s2 = for_loop 1 (fft_size s1 - 1)
                 (\<lambda>j t. t\<lparr>specdata := (specdata t)[j :=
                    complex_of_real (data cs ! j)
                    + \<i> * complex_of_real (data cs ! (length_v cs - j))]\<rparr>)
                 s1;
          s3 = s2\<lparr>specdata := (specdata s2)[fft_size s2 - 1 :=
                    complex_of_real (data cs ! (fft_size s2 - 1))]\<rparr>
      in case fftw_execute (pbw s3) s3 of
           None \<Rightarrow> None
         | Some s4 \<Rightarrow>
             Some (s4, for_loop 0 (length_v output)
                         (\<lambda>j out. out\<lparr>data := (data out)[j := out_buf s4 ! j * renorm]\<rparr>)
                         output))"

text \<open>
  \<^verbatim>\<open>aubio_fft_do\<close> and \<^verbatim>\<open>aubio_fft_rdo\<close> pass the instance's own \<^verbatim>\<open>compspec\<close> as the packed
  vector, so the vector returned by the inner call is stored back into the instance.
\<close>

definition aubio_fft_do ::
  "(complex, fftw_kind) aubio_fft_t \<Rightarrow> fvec_t \<Rightarrow> cvec_t
     \<Rightarrow> ((complex, fftw_kind) aubio_fft_t \<times> cvec_t) option" where
  "aubio_fft_do s input spectrum =
     (case aubio_fft_do_complex s input (compspec s) of
        None \<Rightarrow> None
      | Some (s1, c1) \<Rightarrow>
          (let s2 = s1\<lparr>compspec := c1\<rparr>
           in Some (s2, aubio_fft_get_spectrum (compspec s2) spectrum)))"

definition aubio_fft_rdo ::
  "(complex, fftw_kind) aubio_fft_t \<Rightarrow> cvec_t \<Rightarrow> fvec_t
     \<Rightarrow> ((complex, fftw_kind) aubio_fft_t \<times> fvec_t) option" where
  "aubio_fft_rdo s spectrum output =
     (let s1 = s\<lparr>compspec := aubio_fft_get_realimag spectrum (compspec s)\<rparr>
      in aubio_fft_rdo_complex s1 (compspec s1) output)"

subsection \<open>The build without \<^verbatim>\<open>HAVE_COMPLEX_H\<close>\<close>

definition aubio_fft_do_complex_hc ::
  "(real, fftw_r2r_kind) aubio_fft_t \<Rightarrow> fvec_t \<Rightarrow> fvec_t
     \<Rightarrow> ((real, fftw_r2r_kind) aubio_fft_t \<times> fvec_t) option" where
  "aubio_fft_do_complex_hc s input cs =
     (let s1 = for_loop 0 (winsize s)
                 (\<lambda>j t. t\<lparr>in_buf := (in_buf t)[j := data input ! j]\<rparr>) s
      in case fftw_execute_hc (pfw s1) s1 of
           None \<Rightarrow> None
         | Some s2 \<Rightarrow>
             Some (s2, for_loop 0 (fft_size s2)
                         (\<lambda>j c. c\<lparr>data := (data c)[j := specdata s2 ! j]\<rparr>) cs))"

definition aubio_fft_rdo_complex_hc ::
  "(real, fftw_r2r_kind) aubio_fft_t \<Rightarrow> fvec_t \<Rightarrow> fvec_t
     \<Rightarrow> ((real, fftw_r2r_kind) aubio_fft_t \<times> fvec_t) option" where
  "aubio_fft_rdo_complex_hc s cs output =
     (let renorm = 1 / real (winsize s);
          s1 = for_loop 0 (fft_size s)
                 (\<lambda>j t. t\<lparr>specdata := (specdata t)[j := data cs ! j]\<rparr>) s
      in case fftw_execute_hc (pbw s1) s1 of
           None \<Rightarrow> None
         | Some s2 \<Rightarrow>
             Some (s2, for_loop 0 (length_v output)
                         (\<lambda>j out. out\<lparr>data := (data out)[j := out_buf s2 ! j * renorm]\<rparr>)
                         output))"

definition aubio_fft_do_hc ::
  "(real, fftw_r2r_kind) aubio_fft_t \<Rightarrow> fvec_t \<Rightarrow> cvec_t
     \<Rightarrow> ((real, fftw_r2r_kind) aubio_fft_t \<times> cvec_t) option" where
  "aubio_fft_do_hc s input spectrum =
     (case aubio_fft_do_complex_hc s input (compspec s) of
        None \<Rightarrow> None
      | Some (s1, c1) \<Rightarrow>
          (let s2 = s1\<lparr>compspec := c1\<rparr>
           in Some (s2, aubio_fft_get_spectrum (compspec s2) spectrum)))"

definition aubio_fft_rdo_hc ::
  "(real, fftw_r2r_kind) aubio_fft_t \<Rightarrow> cvec_t \<Rightarrow> fvec_t
     \<Rightarrow> ((real, fftw_r2r_kind) aubio_fft_t \<times> fvec_t) option" where
  "aubio_fft_rdo_hc s spectrum output =
     (let s1 = s\<lparr>compspec := aubio_fft_get_realimag spectrum (compspec s)\<rparr>
      in aubio_fft_rdo_complex_hc s1 (compspec s1) output)"

section \<open>Construction and destruction\<close>

text \<open>The calls made on the mutex, the planner and the allocators, in program order.\<close>

datatype event =
  Mutex_lock | Mutex_unlock
  | Plan_create | Plan_destroy
  | Alloc | Fftw_malloc | Fftw_free | Free | Del_fvec

text \<open>
  Modelled from the spec: \<^verbatim>\<open>new_fvec\<close> (\<^verbatim>\<open>fvec.h\<close>), a zeroed vector of the given length.
\<close>

definition new_fvec :: "nat \<Rightarrow> fvec_t" where
  "new_fvec n = \<lparr>length_v = n, data = replicate n 0\<rparr>"

text \<open>
  \<^verbatim>\<open>new_aubio_fft\<close> returns the pointer it allocated; there is no path returning a null
  pointer, so the result is always \<open>Some\<close>. Allocation is taken to succeed (the source does
  not test it) and fresh memory to be zeroed (the loops store zero at every index anyway).
  The first component lists the calls made.
\<close>

definition new_aubio_fft ::
  "(nat \<Rightarrow> bool) \<Rightarrow> nat \<Rightarrow> event list \<times> (complex, fftw_kind) aubio_fft_t option" where
  "new_aubio_fft accepts n =
     (let s = \<lparr>winsize = n, fft_size = n div 2 + 1,
               in_buf = replicate n 0, out_buf = replicate n 0,
               pfw = fftw_plan_dft_r2c_1d accepts n,
               pbw = fftw_plan_dft_c2r_1d accepts n,
               specdata = replicate (n div 2 + 1) 0,
               compspec = new_fvec n\<rparr>;
          s1 = for_loop 0 (winsize s)
                 (\<lambda>i t. t\<lparr>in_buf := (in_buf t)[i := 0], out_buf := (out_buf t)[i := 0]\<rparr>) s;
          s2 = for_loop 0 (fft_size s1)
                 (\<lambda>i t. t\<lparr>specdata := (specdata t)[i := 0]\<rparr>) s1
      in ([Alloc, Alloc, Alloc, Alloc, Mutex_lock, Fftw_malloc,
           Plan_create, Plan_create, Mutex_unlock],
          Some s2))"

definition new_aubio_fft_hc ::
  "(nat \<Rightarrow> bool) \<Rightarrow> nat \<Rightarrow> event list \<times> (real, fftw_r2r_kind) aubio_fft_t option" where
  "new_aubio_fft_hc accepts n =
     (let s = \<lparr>winsize = n, fft_size = n,
               in_buf = replicate n 0, out_buf = replicate n 0,
               pfw = fftw_plan_r2r_1d accepts n FFTW_R2HC,
               pbw = fftw_plan_r2r_1d accepts n FFTW_HC2R,
               specdata = replicate n 0,
               compspec = new_fvec n\<rparr>;
          s1 = for_loop 0 (winsize s)
                 (\<lambda>i t. t\<lparr>in_buf := (in_buf t)[i := 0], out_buf := (out_buf t)[i := 0]\<rparr>) s;
          s2 = for_loop 0 (fft_size s1)
                 (\<lambda>i t. t\<lparr>specdata := (specdata t)[i := 0]\<rparr>) s1
      in ([Alloc, Alloc, Alloc, Alloc, Mutex_lock, Fftw_malloc,
           Plan_create, Plan_create, Mutex_unlock],
          Some s2))"

definition del_aubio_fft :: "('d, 'k) aubio_fft_t \<Rightarrow> event list" where
  "del_aubio_fft s =
     [Del_fvec, Plan_destroy, Plan_destroy, Fftw_free, Free, Free, Free]"

text \<open>
  Whether every planner call of a trace is made with the mutex held; the first argument
  says whether the mutex is held at the start.
\<close>

fun plan_calls_locked :: "bool \<Rightarrow> event list \<Rightarrow> bool" where
  "plan_calls_locked held [] = True"
| "plan_calls_locked held (Mutex_lock # tr) = plan_calls_locked True tr"
| "plan_calls_locked held (Mutex_unlock # tr) = plan_calls_locked False tr"
| "plan_calls_locked held (Plan_create # tr) = (held \<and> plan_calls_locked held tr)"
| "plan_calls_locked held (Plan_destroy # tr) = (held \<and> plan_calls_locked held tr)"
| "plan_calls_locked held (e # tr) = plan_calls_locked held tr"

section \<open>Instances in use\<close>

text \<open>
  What \<^verbatim>\<open>new_aubio_fft\<close> establishes for a window size \<open>n\<close> the planner accepts, and what
  every later call keeps: the sizes, the plan handles and the lengths of the buffers. The
  contents of the scratch buffers are left open.
\<close>

definition fft_inv :: "nat \<Rightarrow> (complex, fftw_kind) aubio_fft_t \<Rightarrow> bool" where
  "fft_inv n s =
     (winsize s = n \<and> fft_size s = n div 2 + 1
      \<and> length (in_buf s) = n \<and> length (out_buf s) = n
      \<and> pfw s = Some (R2C, n) \<and> pbw s = Some (C2R, n)
      \<and> length (specdata s) = n div 2 + 1 \<and> fvec_ok n (compspec s))"

definition fft_inv_hc :: "nat \<Rightarrow> (real, fftw_r2r_kind) aubio_fft_t \<Rightarrow> bool" where
  "fft_inv_hc n s =
     (winsize s = n \<and> fft_size s = n
      \<and> length (in_buf s) = n \<and> length (out_buf s) = n
      \<and> pfw s = Some (FFTW_R2HC, n) \<and> pbw s = Some (FFTW_HC2R, n)
      \<and> length (specdata s) = n \<and> fvec_ok n (compspec s))"

text \<open>
  The bins \<^verbatim>\<open>aubio_fft_rdo_complex\<close> loads into \<^verbatim>\<open>specdata\<close> from a packed vector \<open>c\<close> of
  length \<open>n\<close> (a closed form of its three stores, used to state what the engine is run on).
\<close>

definition packed_bins :: "nat \<Rightarrow> real list \<Rightarrow> complex list" where
  "packed_bins n c =
     map (\<lambda>k. if k = n div 2 \<or> k = 0 then complex_of_real (c ! k)
              else complex_of_real (c ! k) + \<i> * complex_of_real (c ! (n - k)))
       [0..<n div 2 + 1]"

text \<open>
  The round trip a caller runs: \<^verbatim>\<open>aubio_fft_do\<close> on a frame, then \<^verbatim>\<open>aubio_fft_rdo\<close> on the
  spectrum it produced; the result is the data of the output frame.
\<close>

definition roundtrip ::
  "(complex, fftw_kind) aubio_fft_t \<Rightarrow> fvec_t \<Rightarrow> cvec_t \<Rightarrow> fvec_t \<Rightarrow> real list option" where
  "roundtrip s input spectrum output =
     (case aubio_fft_do s input spectrum of
        None \<Rightarrow> None
      | Some (s1, sp) \<Rightarrow>
          (case aubio_fft_rdo s1 sp output of
             None \<Rightarrow> None
           | Some (s2, out) \<Rightarrow> Some (data out)))"

definition roundtrip_hc ::
  "(real, fftw_r2r_kind) aubio_fft_t \<Rightarrow> fvec_t \<Rightarrow> cvec_t \<Rightarrow> fvec_t \<Rightarrow> real list option" where
  "roundtrip_hc s input spectrum output =
     (case aubio_fft_do_hc s input spectrum of
        None \<Rightarrow> None
      | Some (s1, sp) \<Rightarrow>
          (case aubio_fft_rdo_hc s1 sp output of
             None \<Rightarrow> None
           | Some (s2, out) \<Rightarrow> Some (data out)))"

section \<open>Loops\<close>

lemma for_loop_fold: "for_loop j n body s = fold body [j..<n] s"
proof (induction j n body s rule: for_loop.induct)
  case (1 j n body s)
  show ?case
  proof (cases "j < n")
    case True
    with 1 show ?thesis
      by (subst for_loop.simps) (simp add: upt_conv_Cons)
  next
    case False
    then show ?thesis
      by (subst for_loop.simps) simp
  qed
qed

lemma for_loop_done: "n \<le> j \<Longrightarrow> for_loop j n body s = s"
  by (simp add: for_loop_fold)

lemma for_loop_Suc: "j \<le> n \<Longrightarrow> for_loop j (Suc n) body s = body n (for_loop j n body s)"
  by (simp add: for_loop_fold)

lemma for_loop_rule:
  assumes "P a s"
    and "\<And>j t. a \<le> j \<Longrightarrow> j < b \<Longrightarrow> P j t \<Longrightarrow> P (Suc j) (body j t)"
    and "a \<le> b"
  shows "P b (for_loop a b body s)"
  using assms(3,2)
proof (induction b)
  case 0
  with assms(1) show ?case by (simp add: for_loop_done)
next
  case (Suc b)
  show ?case
  proof (cases "a \<le> b")
    case True
    then have "P b (for_loop a b body s)"
      using Suc.IH Suc.prems(2) by simp
    then show ?thesis
      using True Suc.prems(2) [of b] by (simp add: for_loop_Suc)
  next
    case False
    then have "a = Suc b" using Suc.prems(1) by simp
    then show ?thesis using assms(1) by (simp add: for_loop_done)
  qed
qed

lemma for_loop_inv:
  assumes "I s" and "\<And>j t. a \<le> j \<Longrightarrow> j < b \<Longrightarrow> I t \<Longrightarrow> I (body j t)"
  shows "I (for_loop a b body s)"
proof (cases "a \<le> b")
  case True
  show ?thesis
    by (rule for_loop_rule [where P = "\<lambda>j. I"]) (use assms True in auto)
next
  case False
  then show ?thesis using assms(1) by (simp add: for_loop_done)
qed

text \<open>A loop storing \<open>f j\<close> at index \<open>j\<close>.\<close>

lemma store_loop_length:
  "length (for_loop a b (\<lambda>j xs. xs[g j := f j]) xs) = length xs"
  by (rule for_loop_inv) simp_all

lemma store_loop_nth:
  assumes "i < length xs"
  shows "for_loop a b (\<lambda>j xs. xs[j := f j]) xs ! i = (if a \<le> i \<and> i < b then f i else xs ! i)"
proof (cases "a \<le> b")
  case True
  have "length (for_loop a b (\<lambda>j xs. xs[j := f j]) xs) = length xs \<and>
        for_loop a b (\<lambda>j xs. xs[j := f j]) xs ! i = (if a \<le> i \<and> i < b then f i else xs ! i)"
    by (rule for_loop_rule [where P = "\<lambda>n ys. length ys = length xs \<and>
          ys ! i = (if a \<le> i \<and> i < n then f i else xs ! i)"])
       (use assms True in \<open>auto simp: nth_list_update less_Suc_eq\<close>)
  then show ?thesis by simp
next
  case False
  then show ?thesis by (auto simp: for_loop_done)
qed

text \<open>A loop storing \<open>f j\<close> at the mirrored index \<open>n - j\<close>.\<close>

lemma mirror_loop_nth:
  assumes "i < length xs" and "b \<le> n"
  shows "for_loop a b (\<lambda>j xs. xs[n - j := f j]) xs ! i =
         (if n - b < i \<and> i \<le> n - a then f (n - i) else xs ! i)"
proof (cases "a \<le> b")
  case True
  have "length (for_loop a b (\<lambda>j xs. xs[n - j := f j]) xs) = length xs \<and>
        for_loop a b (\<lambda>j xs. xs[n - j := f j]) xs ! i =
          (if n - b < i \<and> i \<le> n - a then f (n - i) else xs ! i)"
    by (rule for_loop_rule [where P = "\<lambda>m ys. m \<le> b \<and> length ys = length xs \<and>
          ys ! i = (if n - m < i \<and> i \<le> n - a then f (n - i) else xs ! i)", THEN conjunct2])
       (use assms True in \<open>auto simp: nth_list_update\<close>)
  then show ?thesis by simp
next
  case False
  then have "\<not> (n - b < i \<and> i \<le> n - a)" using assms(2) by auto
  with False show ?thesis by (auto simp: for_loop_done)
qed


lemma for_loop_proj:
  assumes "I s"
    and "\<And>j t. a \<le> j \<Longrightarrow> j < b \<Longrightarrow> I t \<Longrightarrow> I (body j t) \<and> proj (body j t) = body' j (proj t)"
  shows "proj (for_loop a b body s) = for_loop a b body' (proj s)"
proof (cases "a \<le> b")
  case True
  have "I (for_loop a b body s) \<and> proj (for_loop a b body s) = for_loop a b body' (proj s)"
    by (rule for_loop_rule [where P = "\<lambda>n t. I t \<and> proj t = for_loop a n body' (proj s)"])
       (use assms True in \<open>auto simp: for_loop_done for_loop_Suc\<close>)
  then show ?thesis by simp
next
  case False
  then show ?thesis by (simp add: for_loop_done)
qed

subsection \<open>Packed to polar\<close>

lemma get_phas_length_c: "length_c (aubio_fft_get_phas c sp) = length_c sp"
proof -
  have "length_c (for_loop a b (\<lambda>j sp. sp\<lparr>phas := (phas sp)[j := f j]\<rparr>) t) = length_c t"
    for a b f and t :: cvec_t
    by (rule for_loop_inv) simp_all
  then show ?thesis by (simp add: aubio_fft_get_phas_def Let_def)
qed

lemma get_phas_norm_c: "norm_c (aubio_fft_get_phas c sp) = norm_c sp"
proof -
  have "norm_c (for_loop a b (\<lambda>j sp. sp\<lparr>phas := (phas sp)[j := f j]\<rparr>) t) = norm_c t"
    for a b f and t :: cvec_t
    by (rule for_loop_inv) simp_all
  then show ?thesis by (simp add: aubio_fft_get_phas_def Let_def)
qed

lemma phas_loop:
  "phas (for_loop a b (\<lambda>j sp. sp\<lparr>phas := (phas sp)[j := f j]\<rparr>) (t :: cvec_t)) =
   for_loop a b (\<lambda>j xs. xs[j := f j]) (phas t)"
  by (rule for_loop_proj [where I = "\<lambda>_. True"]) simp_all

lemma phas_loop_length_c:
  "length_c (for_loop a b (\<lambda>j sp. sp\<lparr>phas := (phas sp)[j := f j]\<rparr>) (t :: cvec_t)) = length_c t"
  by (rule for_loop_inv) simp_all

lemma get_phas_length: "length (phas (aubio_fft_get_phas c sp)) = length (phas sp)"
  by (simp add: aubio_fft_get_phas_def Let_def phas_loop store_loop_length)

lemma get_phas_nth:
  assumes "cvec_ok n sp" and "k < n"
  shows "phas (aubio_fft_get_phas c sp) ! k =
         (if k = n - 1 then (if data c ! (length_v c div 2) < 0 then pi else 0)
          else if k = 0 then (if data c ! 0 < 0 then pi else 0)
          else ATAN2 (data c ! (length_v c - k)) (data c ! k))"
  using assms
  by (auto simp: aubio_fft_get_phas_def Let_def phas_loop phas_loop_length_c cvec_ok_def
      store_loop_length store_loop_nth nth_list_update)

lemma norm_loop:
  "norm_c (for_loop a b (\<lambda>j sp. sp\<lparr>norm_c := (norm_c sp)[j := f j]\<rparr>) (t :: cvec_t)) =
   for_loop a b (\<lambda>j xs. xs[j := f j]) (norm_c t)"
  by (rule for_loop_proj [where I = "\<lambda>_. True"]) simp_all

lemma norm_loop_length_c:
  "length_c (for_loop a b (\<lambda>j sp. sp\<lparr>norm_c := (norm_c sp)[j := f j]\<rparr>) (t :: cvec_t)) = length_c t"
  by (rule for_loop_inv) simp_all

lemma norm_loop_phas:
  "phas (for_loop a b (\<lambda>j sp. sp\<lparr>norm_c := (norm_c sp)[j := f j]\<rparr>) (t :: cvec_t)) = phas t"
  by (rule for_loop_inv) simp_all

lemma get_norm_length_c: "length_c (aubio_fft_get_norm c sp) = length_c sp"
  by (simp add: aubio_fft_get_norm_def Let_def norm_loop_length_c)

lemma get_norm_phas: "phas (aubio_fft_get_norm c sp) = phas sp"
  by (simp add: aubio_fft_get_norm_def Let_def norm_loop_phas)

lemma get_norm_length: "length (norm_c (aubio_fft_get_norm c sp)) = length (norm_c sp)"
  by (simp add: aubio_fft_get_norm_def Let_def norm_loop store_loop_length)

lemma get_norm_nth:
  assumes "cvec_ok n sp" and "k < n"
  shows "norm_c (aubio_fft_get_norm c sp) ! k =
         (if k = n - 1 then \<bar>data c ! (length_v c div 2)\<bar>
          else if k = 0 then \<bar>data c ! 0\<bar>
          else sqrt (SQR (data c ! k) + SQR (data c ! (length_v c - k))))"
  using assms
  by (auto simp: aubio_fft_get_norm_def Let_def norm_loop norm_loop_length_c cvec_ok_def
      store_loop_length store_loop_nth nth_list_update)

lemma get_spectrum_ok: "cvec_ok n sp \<Longrightarrow> cvec_ok n (aubio_fft_get_spectrum c sp)"
  by (simp add: cvec_ok_def aubio_fft_get_spectrum_def get_norm_length_c get_norm_phas
      get_norm_length get_phas_length_c get_phas_norm_c get_phas_length)

subsection \<open>Polar to packed\<close>

lemma data_loop_length_v:
  "length_v (for_loop a b (\<lambda>j c. c\<lparr>data := g j c\<rparr>) (t :: fvec_t)) = length_v t"
  by (rule for_loop_inv) simp_all

lemma get_imag_length_v: "length_v (aubio_fft_get_imag sp c) = length_v c"
  by (simp add: aubio_fft_get_imag_def data_loop_length_v)

lemma get_imag_data:
  "data (aubio_fft_get_imag sp c) =
   for_loop 1 ((length_v c + 1) div 2)
     (\<lambda>j xs. xs[length_v c - j := norm_c sp ! j * sin (phas sp ! j)]) (data c)"
  unfolding aubio_fft_get_imag_def
  by (rule for_loop_proj [where I = "\<lambda>t. length_v t = length_v c"]) simp_all

lemma get_imag_length: "length (data (aubio_fft_get_imag sp c)) = length (data c)"
  by (simp add: get_imag_data store_loop_length)

lemma get_imag_nth:
  assumes "fvec_ok n c" and "i < n"
  shows "data (aubio_fft_get_imag sp c) ! i =
         (if n div 2 < i then norm_c sp ! (n - i) * sin (phas sp ! (n - i)) else data c ! i)"
proof -
  have "n - (n + 1) div 2 = n div 2" by presburger
  moreover have "(n + 1) div 2 \<le> n" by presburger
  ultimately show ?thesis
    using assms by (auto simp: get_imag_data fvec_ok_def mirror_loop_nth)
qed

lemma get_real_length_v: "length_v (aubio_fft_get_real sp c) = length_v c"
  by (simp add: aubio_fft_get_real_def data_loop_length_v)

lemma get_real_data:
  "data (aubio_fft_get_real sp c) =
   for_loop 0 (length_v c div 2 + 1)
     (\<lambda>j xs. xs[j := norm_c sp ! j * cos (phas sp ! j)]) (data c)"
  unfolding aubio_fft_get_real_def
  by (rule for_loop_proj [where I = "\<lambda>_. True"]) simp_all

lemma get_real_length: "length (data (aubio_fft_get_real sp c)) = length (data c)"
  by (simp add: get_real_data store_loop_length)

lemma get_real_nth:
  assumes "fvec_ok n c" and "i < n"
  shows "data (aubio_fft_get_real sp c) ! i =
         (if i \<le> n div 2 then norm_c sp ! i * cos (phas sp ! i) else data c ! i)"
  using assms by (auto simp: get_real_data fvec_ok_def store_loop_nth)

lemma get_realimag_ok: "fvec_ok n c \<Longrightarrow> fvec_ok n (aubio_fft_get_realimag sp c)"
  by (simp add: fvec_ok_def aubio_fft_get_realimag_def get_real_length_v get_real_length
      get_imag_length_v get_imag_length)

lemma get_realimag_nth:
  assumes "fvec_ok n c" and "i < n"
  shows "data (aubio_fft_get_realimag sp c) ! i =
         (if i \<le> n div 2 then norm_c sp ! i * cos (phas sp ! i)
          else norm_c sp ! (n - i) * sin (phas sp ! (n - i)))"
proof -
  have "fvec_ok n (aubio_fft_get_imag sp c)"
    using assms(1) by (simp add: fvec_ok_def get_imag_length_v get_imag_length)
  then show ?thesis
    using assms by (simp add: aubio_fft_get_realimag_def get_real_nth get_imag_nth)
qed


section \<open>The two-argument arctangent\<close>

lemma sqrt_sum_squares_factor:
  fixes x y :: real
  assumes "x \<noteq> 0"
  shows "sqrt (x * x + y * y) = \<bar>x\<bar> * sqrt (1 + (y / x)\<^sup>2)"
proof -
  have "x * x + y * y = (x * x) * (1 + (y / x)\<^sup>2)"
    using assms by (simp add: field_simps power2_eq_square)
  then have "sqrt (x * x + y * y) = sqrt (x * x) * sqrt (1 + (y / x)\<^sup>2)"
    by (simp add: real_sqrt_mult)
  then show ?thesis by simp
qed

lemma sqrt_one_plus_pos: "0 < sqrt (1 + (t::real)\<^sup>2)"
  by (simp add: add_pos_nonneg)

lemma polar_cos_arctan:
  fixes x y :: real
  assumes "x \<noteq> 0"
  shows "sqrt (x * x + y * y) * cos (arctan (y / x)) = \<bar>x\<bar>"
  using assms sqrt_one_plus_pos [of "y / x"]
  by (simp add: sqrt_sum_squares_factor cos_arctan)

lemma polar_sin_arctan:
  fixes x y :: real
  assumes "x \<noteq> 0"
  shows "sqrt (x * x + y * y) * sin (arctan (y / x)) = \<bar>x\<bar> * (y / x)"
  using assms sqrt_one_plus_pos [of "y / x"]
  by (simp add: sqrt_sum_squares_factor sin_arctan)

lemma ATAN2_cos: "sqrt (x * x + y * y) * cos (ATAN2 y x) = x"
proof -
  consider "0 < x" | "x < 0" | "x = 0" by linarith
  then show ?thesis
  proof cases
    case 1
    then show ?thesis
      using polar_cos_arctan [of x y] by (simp add: ATAN2_def)
  next
    case 2
    then have "sqrt (x * x + y * y) * cos (arctan (y / x)) = - x"
      using polar_cos_arctan [of x y] by simp
    then have "sqrt (x * x + y * y) * (- cos (arctan (y / x))) = x"
      by simp
    with 2 show ?thesis
      by (simp add: ATAN2_def cos_diff cos_add)
  next
    case 3
    then show ?thesis by (simp add: ATAN2_def)
  qed
qed

lemma ATAN2_sin: "sqrt (x * x + y * y) * sin (ATAN2 y x) = y"
proof -
  consider "0 < x" | "x < 0" | "x = 0" by linarith
  then show ?thesis
  proof cases
    case 1
    then show ?thesis
      using polar_sin_arctan [of x y] by (simp add: ATAN2_def)
  next
    case 2
    then have "sqrt (x * x + y * y) * sin (arctan (y / x)) = - y"
      using polar_sin_arctan [of x y] by simp
    then have "sqrt (x * x + y * y) * (- sin (arctan (y / x))) = y"
      by simp
    with 2 show ?thesis
      by (simp add: ATAN2_def sin_diff sin_add)
  next
    case 3
    then show ?thesis by (simp add: ATAN2_def)
  qed
qed

lemma ATAN2_range: "- pi \<le> ATAN2 y x \<and> ATAN2 y x \<le> pi"
proof -
  have b: "- (pi / 2) < arctan (y / x)" "arctan (y / x) < pi / 2"
    by (rule arctan_lbound, rule arctan_ubound)
  have neg: "x < 0 \<Longrightarrow> 0 \<le> y \<Longrightarrow> arctan (y / x) \<le> 0"
    by (simp add: divide_nonneg_neg arctan_le_zero_iff)
  have pos: "x < 0 \<Longrightarrow> y < 0 \<Longrightarrow> 0 \<le> arctan (y / x)"
    by (simp add: divide_neg_neg less_imp_le)
  show ?thesis
    using b neg pos pi_gt_zero by (auto simp: ATAN2_def)
qed

lemma ATAN2_zero: "ATAN2 0 0 = 0"
  by (simp add: ATAN2_def)


section \<open>Properties of the packed and polar conversions\<close>

lemma get_spectrum_phas_nth:
  assumes "cvec_ok n sp" and "k < n"
  shows "phas (aubio_fft_get_spectrum c sp) ! k =
         (if k = n - 1 then (if data c ! (length_v c div 2) < 0 then pi else 0)
          else if k = 0 then (if data c ! 0 < 0 then pi else 0)
          else ATAN2 (data c ! (length_v c - k)) (data c ! k))"
  using assms by (simp add: aubio_fft_get_spectrum_def get_norm_phas get_phas_nth)

lemma get_spectrum_norm_nth:
  assumes "cvec_ok n sp" and "k < n"
  shows "norm_c (aubio_fft_get_spectrum c sp) ! k =
         (if k = n - 1 then \<bar>data c ! (length_v c div 2)\<bar>
          else if k = 0 then \<bar>data c ! 0\<bar>
          else sqrt (SQR (data c ! k) + SQR (data c ! (length_v c - k))))"
proof -
  have "cvec_ok n (aubio_fft_get_phas c sp)"
    using assms(1) by (simp add: cvec_ok_def get_phas_length_c get_phas_norm_c get_phas_length)
  then show ?thesis
    using assms(2) by (simp add: aubio_fft_get_spectrum_def get_norm_nth)
qed

lemma boundary_cos: "\<bar>x\<bar> * cos (if x < 0 then pi else 0) = (x::real)"
  by simp

lemma boundary_sin: "\<bar>x\<bar> * sin (if x < 0 then pi else 0) = (0::real)"
  by simp

lemma polar_bin_real:
  assumes "0 < N" and "fvec_ok N packed" and "cvec_ok (N div 2 + 1) spectrum"
    and "k \<le> N div 2"
  shows "norm_c (aubio_fft_get_spectrum packed spectrum) ! k
         * cos (phas (aubio_fft_get_spectrum packed spectrum) ! k) = data packed ! k"
  using assms boundary_cos [of "data packed ! 0"] boundary_cos [of "data packed ! (N div 2)"]
  by (simp add: get_spectrum_phas_nth [where n = "N div 2 + 1"]
      get_spectrum_norm_nth [where n = "N div 2 + 1"] fvec_ok_def SQR_def ATAN2_cos)

lemma polar_bin_imag:
  assumes "0 < N" and "fvec_ok N packed" and "cvec_ok (N div 2 + 1) spectrum"
    and "k \<le> N div 2"
  shows "norm_c (aubio_fft_get_spectrum packed spectrum) ! k
         * sin (phas (aubio_fft_get_spectrum packed spectrum) ! k) =
         (if k = 0 \<or> k = N div 2 then 0 else data packed ! (N - k))"
  using assms 
  by (simp add: get_spectrum_phas_nth [where n = "N div 2 + 1"]
      get_spectrum_norm_nth [where n = "N div 2 + 1"] fvec_ok_def SQR_def ATAN2_sin)

lemma packed_polar_packed:
  assumes "even N \<or> N = 1" and "0 < N" and "fvec_ok N packed"
    and "cvec_ok (N div 2 + 1) spectrum" and "fvec_ok N target"
  shows "data (aubio_fft_get_realimag (aubio_fft_get_spectrum packed spectrum) target) = data packed"
proof (rule nth_equalityI)
  show "length (data (aubio_fft_get_realimag (aubio_fft_get_spectrum packed spectrum) target))
        = length (data packed)"
    using assms(3,5) get_realimag_ok [of N target] by (simp add: fvec_ok_def)
next
  fix i
  assume "i < length (data (aubio_fft_get_realimag (aubio_fft_get_spectrum packed spectrum) target))"
  then have i: "i < N"
    using assms(5) get_realimag_ok [of N target] by (simp add: fvec_ok_def)
  show "data (aubio_fft_get_realimag (aubio_fft_get_spectrum packed spectrum) target) ! i
        = data packed ! i"
  proof (cases "i \<le> N div 2")
    case True
    then show ?thesis
      using assms i by (simp add: get_realimag_nth [where n = N] polar_bin_real [where N = N])
  next
    case False
    then have "N - i \<le> N div 2" "N - i \<noteq> 0" "N - i \<noteq> N div 2" "N - (N - i) = i"
      using i assms(1) by (auto elim!: evenE)
    then show ?thesis
      using assms i False
      by (simp add: get_realimag_nth [where n = N] polar_bin_imag [where N = N])
  qed
qed

text \<open>
  Claim C3 (interior bins of the packed-to-polar conversion). For a packed vector of even
  length \<open>N\<close> and a polar spectrum of length \<open>N div 2 + 1\<close>, every bin \<open>k\<close> with
  \<open>1 \<le> k < N div 2\<close> gets the norm \<open>sqrt (packed[k]\<^sup>2 + packed[N - k]\<^sup>2)\<close> and the phase
  \<open>ATAN2 (packed[N - k]) (packed[k])\<close>: the imaginary part is the first argument of the
  arctangent, the real part the second.
\<close>

theorem interior_bins:
  assumes "even N" and "fvec_ok N packed" and "cvec_ok (N div 2 + 1) spectrum"
    and "1 \<le> k" and "k < N div 2"
  shows "norm_c (aubio_fft_get_spectrum packed spectrum) ! k =
           sqrt ((data packed ! k)\<^sup>2 + (data packed ! (N - k))\<^sup>2)
         \<and> phas (aubio_fft_get_spectrum packed spectrum) ! k =
           ATAN2 (data packed ! (N - k)) (data packed ! k)"
  using assms
  by (simp add: get_spectrum_phas_nth [where n = "N div 2 + 1"]
      get_spectrum_norm_nth [where n = "N div 2 + 1"] fvec_ok_def SQR_def power2_eq_square)

theorem interior_bins_witness:
  "even (4::nat) \<and> fvec_ok 4 \<lparr>length_v = 4, data = [1, 3, 5, 4]\<rparr>
   \<and> cvec_ok (4 div 2 + 1) \<lparr>length_c = 3, norm_c = [0, 0, 0], phas = [0, 0, 0]\<rparr>
   \<and> norm_c (aubio_fft_get_spectrum \<lparr>length_v = 4, data = [1, 3, 5, 4]\<rparr>
        \<lparr>length_c = 3, norm_c = [0, 0, 0], phas = [0, 0, 0]\<rparr>) ! 1 = 5
   \<and> phas (aubio_fft_get_spectrum \<lparr>length_v = 4, data = [1, 3, 5, 4]\<rparr>
        \<lparr>length_c = 3, norm_c = [0, 0, 0], phas = [0, 0, 0]\<rparr>) ! 1 = ATAN2 4 3"
proof -
  have "sqrt (3\<^sup>2 + 4\<^sup>2) = (5::real)"
    by (rule real_sqrt_unique) simp_all
  then show ?thesis
  using interior_bins [of 4 "\<lparr>length_v = 4, data = [1, 3, 5, 4]\<rparr>"
      "\<lparr>length_c = 3, norm_c = [0, 0, 0], phas = [0, 0, 0]\<rparr>" 1]
  by (simp add: fvec_ok_def cvec_ok_def)
qed

text \<open>
  Claim C4 (DC and Nyquist bins). For a packed vector of even length \<open>N > 0\<close>, the norms of
  bins \<open>0\<close> and \<open>N div 2\<close> are the absolute values of \<open>packed[0]\<close> and \<open>packed[N div 2]\<close>, their
  phases are \<open>0\<close> or \<open>pi\<close>, and the phase is \<open>pi\<close> exactly when the packed value is negative.
\<close>

theorem boundary_bins:
  assumes "even N" and "0 < N" and "fvec_ok N packed" and "cvec_ok (N div 2 + 1) spectrum"
  shows "norm_c (aubio_fft_get_spectrum packed spectrum) ! 0 = \<bar>data packed ! 0\<bar>
       \<and> norm_c (aubio_fft_get_spectrum packed spectrum) ! (N div 2) = \<bar>data packed ! (N div 2)\<bar>
       \<and> (phas (aubio_fft_get_spectrum packed spectrum) ! 0 = 0
           \<or> phas (aubio_fft_get_spectrum packed spectrum) ! 0 = pi)
       \<and> (phas (aubio_fft_get_spectrum packed spectrum) ! (N div 2) = 0
           \<or> phas (aubio_fft_get_spectrum packed spectrum) ! (N div 2) = pi)
       \<and> (phas (aubio_fft_get_spectrum packed spectrum) ! 0 = pi
            \<longleftrightarrow> data packed ! 0 < 0)
       \<and> (phas (aubio_fft_get_spectrum packed spectrum) ! (N div 2) = pi
            \<longleftrightarrow> data packed ! (N div 2) < 0)"
proof -
  have "0 < N div 2" using assms(1,2) by (auto elim: evenE)
  then show ?thesis
    using assms pi_neq_zero
    by (simp add: get_spectrum_phas_nth [where n = "N div 2 + 1"]
        get_spectrum_norm_nth [where n = "N div 2 + 1"] fvec_ok_def)
qed

theorem boundary_bins_witness:
  "even (4::nat) \<and> (0::nat) < 4 \<and> fvec_ok 4 \<lparr>length_v = 4, data = [- 1, 3, 5, 4]\<rparr>
   \<and> cvec_ok (4 div 2 + 1) \<lparr>length_c = 3, norm_c = [0, 0, 0], phas = [0, 0, 0]\<rparr>
   \<and> norm_c (aubio_fft_get_spectrum \<lparr>length_v = 4, data = [- 1, 3, 5, 4]\<rparr>
        \<lparr>length_c = 3, norm_c = [0, 0, 0], phas = [0, 0, 0]\<rparr>) ! 0 = 1
   \<and> norm_c (aubio_fft_get_spectrum \<lparr>length_v = 4, data = [- 1, 3, 5, 4]\<rparr>
        \<lparr>length_c = 3, norm_c = [0, 0, 0], phas = [0, 0, 0]\<rparr>) ! 2 = 5
   \<and> phas (aubio_fft_get_spectrum \<lparr>length_v = 4, data = [- 1, 3, 5, 4]\<rparr>
        \<lparr>length_c = 3, norm_c = [0, 0, 0], phas = [0, 0, 0]\<rparr>) ! 0 = pi
   \<and> phas (aubio_fft_get_spectrum \<lparr>length_v = 4, data = [- 1, 3, 5, 4]\<rparr>
        \<lparr>length_c = 3, norm_c = [0, 0, 0], phas = [0, 0, 0]\<rparr>) ! 2 = 0"
  using boundary_bins [of 4 "\<lparr>length_v = 4, data = [- 1, 3, 5, 4]\<rparr>"
      "\<lparr>length_c = 3, norm_c = [0, 0, 0], phas = [0, 0, 0]\<rparr>"]
  by (auto simp: fvec_ok_def cvec_ok_def)

text \<open>
  Claim C10 (phase range). Every phase written by \<^verbatim>\<open>aubio_fft_get_phas\<close> lies in the closed
  interval from \<open>- pi\<close> to \<open>pi\<close>: the first and the last are \<open>0\<close> or \<open>pi\<close>, the others are
  values of \<^verbatim>\<open>ATAN2\<close>, which lie in that interval and are \<open>0\<close> at the origin.
\<close>

theorem phase_range:
  assumes "cvec_ok n spectrum" and "k < n"
  shows "- pi \<le> phas (aubio_fft_get_phas packed spectrum) ! k
       \<and> phas (aubio_fft_get_phas packed spectrum) ! k \<le> pi
       \<and> (k = 0 \<or> k = n - 1 \<longrightarrow>
            phas (aubio_fft_get_phas packed spectrum) ! k = 0
            \<or> phas (aubio_fft_get_phas packed spectrum) ! k = pi)
       \<and> (k \<noteq> 0 \<and> k \<noteq> n - 1 \<longrightarrow>
            phas (aubio_fft_get_phas packed spectrum) ! k =
              ATAN2 (data packed ! (length_v packed - k)) (data packed ! k))
       \<and> ATAN2 0 0 = 0"
  using assms ATAN2_range pi_ge_zero
  by (simp add: get_phas_nth [where n = n] ATAN2_zero)

theorem phase_range_witness:
  "cvec_ok 3 \<lparr>length_c = 3, norm_c = [0, 0, 0], phas = [0, 0, 0]\<rparr> \<and> (1::nat) < 3
   \<and> - pi \<le> phas (aubio_fft_get_phas \<lparr>length_v = 4, data = [1, - 3, 5, - 4]\<rparr>
              \<lparr>length_c = 3, norm_c = [0, 0, 0], phas = [0, 0, 0]\<rparr>) ! 1
   \<and> phas (aubio_fft_get_phas \<lparr>length_v = 4, data = [1, - 3, 5, - 4]\<rparr>
        \<lparr>length_c = 3, norm_c = [0, 0, 0], phas = [0, 0, 0]\<rparr>) ! 1 \<le> pi
   \<and> phas (aubio_fft_get_phas \<lparr>length_v = 4, data = [1, - 3, 5, - 4]\<rparr>
        \<lparr>length_c = 3, norm_c = [0, 0, 0], phas = [0, 0, 0]\<rparr>) ! 1 = ATAN2 (- 4) (- 3)"
  using phase_range [of 3 "\<lparr>length_c = 3, norm_c = [0, 0, 0], phas = [0, 0, 0]\<rparr>" 1
      "\<lparr>length_v = 4, data = [1, - 3, 5, - 4]\<rparr>"]
  by (simp add: cvec_ok_def)

text \<open>
  Claim C5 (writes of the polar-to-packed conversion). For a packed vector of even length
  \<open>N > 0\<close> and a polar spectrum of length \<open>N div 2 + 1\<close>: \<^verbatim>\<open>aubio_fft_get_imag\<close> stores
  \<open>norm[k] * sin (phas[k])\<close> at index \<open>N - k\<close> for \<open>1 \<le> k < (N + 1) div 2\<close> and leaves the
  indices \<open>0\<close> to \<open>N div 2\<close> as they were; \<^verbatim>\<open>aubio_fft_get_real\<close> stores
  \<open>norm[k] * cos (phas[k])\<close> at index \<open>k\<close> for \<open>0 \<le> k \<le> N div 2\<close>.
\<close>

theorem polar_to_packed_writes:
  assumes "even N" and "0 < N" and "fvec_ok N packed" and "cvec_ok (N div 2 + 1) spectrum"
  shows "(\<forall>k. 1 \<le> k \<and> k < (N + 1) div 2 \<longrightarrow>
            data (aubio_fft_get_imag spectrum packed) ! (N - k) =
              norm_c spectrum ! k * sin (phas spectrum ! k))
       \<and> (\<forall>i \<le> N div 2. data (aubio_fft_get_imag spectrum packed) ! i = data packed ! i)
       \<and> (\<forall>k \<le> N div 2. data (aubio_fft_get_real spectrum packed) ! k =
              norm_c spectrum ! k * cos (phas spectrum ! k))"
proof (intro conjI allI impI)
  fix k assume k: "1 \<le> k \<and> k < (N + 1) div 2"
  then have "N - k < N" "N div 2 < N - k" "N - (N - k) = k"
    using assms(1) by (auto elim!: evenE)
  then show "data (aubio_fft_get_imag spectrum packed) ! (N - k) =
              norm_c spectrum ! k * sin (phas spectrum ! k)"
    using assms(3) by (simp add: get_imag_nth [where n = N])
next
  fix i assume "i \<le> N div 2"
  then have "i < N" using assms(2) by linarith
  with \<open>i \<le> N div 2\<close> show "data (aubio_fft_get_imag spectrum packed) ! i = data packed ! i"
    using assms(3) by (simp add: get_imag_nth [where n = N])
next
  fix k assume "k \<le> N div 2"
  then have "k < N" using assms(2) by linarith
  with \<open>k \<le> N div 2\<close> show "data (aubio_fft_get_real spectrum packed) ! k =
              norm_c spectrum ! k * cos (phas spectrum ! k)"
    using assms(3) by (simp add: get_real_nth [where n = N])
qed

theorem polar_to_packed_writes_witness:
  "even (4::nat) \<and> (0::nat) < 4 \<and> fvec_ok 4 \<lparr>length_v = 4, data = [1, 3, 5, 4]\<rparr>
   \<and> cvec_ok (4 div 2 + 1) \<lparr>length_c = 3, norm_c = [2, 3, 4], phas = [0, pi / 2, pi]\<rparr>
   \<and> data (aubio_fft_get_imag \<lparr>length_c = 3, norm_c = [2, 3, 4], phas = [0, pi / 2, pi]\<rparr>
        \<lparr>length_v = 4, data = [1, 3, 5, 4]\<rparr>) ! 3 = 3
   \<and> data (aubio_fft_get_imag \<lparr>length_c = 3, norm_c = [2, 3, 4], phas = [0, pi / 2, pi]\<rparr>
        \<lparr>length_v = 4, data = [1, 3, 5, 4]\<rparr>) ! 2 = 5
   \<and> data (aubio_fft_get_real \<lparr>length_c = 3, norm_c = [2, 3, 4], phas = [0, pi / 2, pi]\<rparr>
        \<lparr>length_v = 4, data = [1, 3, 5, 4]\<rparr>) ! 2 = - 4"
proof -
  have h: "even (4::nat)" "(0::nat) < 4" "fvec_ok 4 \<lparr>length_v = 4, data = [1, 3, 5, 4]\<rparr>"
    "cvec_ok (4 div 2 + 1) \<lparr>length_c = 3, norm_c = [2, 3, 4], phas = [0, pi / 2, pi]\<rparr>"
    by (simp_all add: fvec_ok_def cvec_ok_def)
  note w = polar_to_packed_writes [OF h]
  show ?thesis
    using h w [THEN conjunct1, rule_format, of 1]
      w [THEN conjunct2, THEN conjunct1, rule_format, of 2]
      w [THEN conjunct2, THEN conjunct2, rule_format, of 2]
    by simp
qed

text \<open>
  Claim C2 (packed to polar to packed). For a packed vector of even length \<open>N > 0\<close>,
  \<^verbatim>\<open>aubio_fft_get_spectrum\<close> followed by \<^verbatim>\<open>aubio_fft_get_realimag\<close> into any vector of length
  \<open>N\<close> gives the packed vector back: for every bin \<open>k \<le> N div 2\<close>, \<open>norm[k] * cos (phas[k])\<close> is
  the packed real part \<open>packed[k]\<close>, and \<open>norm[k] * sin (phas[k])\<close> is the packed imaginary part
  \<open>packed[N - k]\<close> (zero for the bins \<open>0\<close> and \<open>N div 2\<close>, which have no imaginary slot).
\<close>

theorem packed_polar_roundtrip:
  assumes "even N" and "0 < N" and "fvec_ok N packed" and "cvec_ok (N div 2 + 1) spectrum"
    and "fvec_ok N target"
  shows "data (aubio_fft_get_realimag (aubio_fft_get_spectrum packed spectrum) target) = data packed
       \<and> length_v (aubio_fft_get_realimag (aubio_fft_get_spectrum packed spectrum) target) = N
       \<and> (\<forall>k \<le> N div 2.
             norm_c (aubio_fft_get_spectrum packed spectrum) ! k
               * cos (phas (aubio_fft_get_spectrum packed spectrum) ! k) = data packed ! k
           \<and> norm_c (aubio_fft_get_spectrum packed spectrum) ! k
               * sin (phas (aubio_fft_get_spectrum packed spectrum) ! k) =
               (if k = 0 \<or> k = N div 2 then 0 else data packed ! (N - k)))"
  using assms packed_polar_packed [OF disjI1 [OF assms(1)] assms(2-5)]
    get_realimag_ok [of N target]
  by (simp add: polar_bin_real [where N = N] polar_bin_imag [where N = N] fvec_ok_def)


theorem packed_polar_roundtrip_witness:
  "even (4::nat) \<and> (0::nat) < 4 \<and> fvec_ok 4 \<lparr>length_v = 4, data = [- 1, 3, 5, 4]\<rparr>
   \<and> cvec_ok (4 div 2 + 1) \<lparr>length_c = 3, norm_c = [0, 0, 0], phas = [0, 0, 0]\<rparr>
   \<and> fvec_ok 4 \<lparr>length_v = 4, data = [7, 7, 7, 7]\<rparr>
   \<and> data (aubio_fft_get_realimag
        (aubio_fft_get_spectrum \<lparr>length_v = 4, data = [- 1, 3, 5, 4]\<rparr>
        \<lparr>length_c = 3, norm_c = [0, 0, 0], phas = [0, 0, 0]\<rparr>)
        \<lparr>length_v = 4, data = [7, 7, 7, 7]\<rparr>) = [- 1, 3, 5, 4]"
  using packed_polar_roundtrip [of 4 "\<lparr>length_v = 4, data = [- 1, 3, 5, 4]\<rparr>" "\<lparr>length_c = 3, norm_c = [0, 0, 0], phas = [0, 0, 0]\<rparr>"
      "\<lparr>length_v = 4, data = [7, 7, 7, 7]\<rparr>"]
  by (simp add: fvec_ok_def cvec_ok_def)

section \<open>The engine inverts itself up to the factor \<open>n\<close>\<close>

lemma fftw_r2c_length: "length (fftw_r2c n x) = n div 2 + 1"
  by (simp add: fftw_r2c_def)

lemma fftw_r2c_nth: "k \<le> n div 2 \<Longrightarrow> fftw_r2c n x ! k = dft n x k"
  by (simp add: fftw_r2c_def nth_map_upt del: upt_Suc)

lemma fftw_c2r_length: "length (fftw_c2r n X) = n"
  by (simp add: fftw_c2r_def)

lemma cis_shift:
  assumes "0 < n"
  shows "cis (2 * pi * (real n - real k) * real m / real n) =
         cis (- (2 * pi * real k * real m / real n))"
proof -
  have "2 * pi * (real n - real k) * real m / real n =
        2 * pi * real m + - (2 * pi * real k * real m / real n)"
    using assms by (simp add: field_simps)
  then have "cis (2 * pi * (real n - real k) * real m / real n) =
        cis (2 * pi * real m) * cis (- (2 * pi * real k * real m / real n))"
    by (simp only: cis_mult)
  moreover have "cis (2 * pi * real m) = 1"
    by (rule cis_multiple_2pi) simp
  ultimately show ?thesis by simp
qed

lemma dft_mirror:
  assumes "0 < n" and "k \<le> n"
  shows "cnj (dft n x (n - k)) = dft n x k"
proof -
  have "cnj (dft n x (n - k)) =
        (\<Sum>m<n. complex_of_real (x ! m) * cis (2 * pi * (real n - real k) * real m / real n))"
    using assms(2) by (simp add: dft_def cis_cnj of_nat_diff)
  also have "\<dots> = dft n x k"
    unfolding dft_def using assms(1) by (intro sum.cong refl) (simp only: cis_shift)
  finally show ?thesis .
qed

lemma hermitian_dft:
  assumes "0 < n" and "k < n"
  shows "hermitian n (fftw_r2c n x) k = dft n x k"
proof (cases "k \<le> n div 2")
  case True
  then show ?thesis by (simp add: hermitian_def fftw_r2c_nth)
next
  case False
  then have "n - k \<le> n div 2" using assms by linarith
  then show ?thesis
    using False assms by (simp add: hermitian_def fftw_r2c_nth dft_mirror)
qed

lemma cis_eq_one_int:
  assumes "cis t = 1"
  shows "\<exists>i::int. t = of_int i * 2 * pi"
proof -
  from assms have "cos t = 1" by (simp add: complex_eq_iff)
  then show ?thesis by (simp add: cos_one_2pi_int)
qed

lemma root_sum:
  assumes "0 < n" and "m < n" and "j < n"
  shows "(\<Sum>k<n. cis (2 * pi * real k * (real m - real j) / real n)) =
         (if m = j then of_nat n else 0)"
proof (cases "m = j")
  case True
  then show ?thesis by simp
next
  case False
  define w where "w = cis (2 * pi * (real m - real j) / real n)"
  have pow: "cis (2 * pi * real k * (real m - real j) / real n) = w ^ k" for k
    by (simp add: w_def DeMoivre mult_ac)
  have "real m - real j \<in> \<int>" by simp
  then have "cis (2 * pi * (real m - real j)) = 1"
    by (rule cis_multiple_2pi)
  then have wn: "w ^ n = 1"
    using assms(1) by (simp add: w_def DeMoivre)
  have "w \<noteq> 1"
  proof
    assume "w = 1"
    then obtain i :: int where i: "2 * pi * (real m - real j) / real n = of_int i * 2 * pi"
      unfolding w_def using cis_eq_one_int by blast
    have "(real m - real j) / real n = (2 * pi * (real m - real j) / real n) / (2 * pi)"
      by simp
    also have "\<dots> = (of_int i * 2 * pi) / (2 * pi)"
      by (simp only: i)
    also have "\<dots> = of_int i"
      by simp
    finally have "(real m - real j) / real n = of_int i" .
    then have "real m - real j = of_int i * real n"
      using assms(1) by (simp add: field_simps)
    then have "real_of_int (int m - int j) = real_of_int (i * int n)"
      by simp
    then have eq: "int m - int j = i * int n"
      by (simp only: of_int_eq_iff)
    have "\<bar>int m - int j\<bar> < int n" using assms by linarith
    with eq have "\<bar>i\<bar> * int n < 1 * int n" by (simp add: abs_mult)
    then have "\<bar>i\<bar> < 1" using assms(1) by (simp add: mult_less_cancel_right)
    then have "i = 0" by simp
    with eq False show False by simp
  qed
  then have "(\<Sum>k<n. w ^ k) = (w ^ n - 1) / (w - 1)"
    by (rule geometric_sum)
  with wn False show ?thesis by (simp add: pow)
qed

lemma dft_inverse_sum:
  assumes "0 < n" and "m < n"
  shows "(\<Sum>k<n. dft n x k * cis (2 * pi * real k * real m / real n)) =
         of_nat n * complex_of_real (x ! m)"
proof -
  have "(\<Sum>k<n. dft n x k * cis (2 * pi * real k * real m / real n)) =
        (\<Sum>k<n. \<Sum>j<n. complex_of_real (x ! j) * cis (2 * pi * real k * (real m - real j) / real n))"
  proof (rule sum.cong [OF refl])
    fix k
    have "cis (- (2 * pi * real k * real j / real n)) * cis (2 * pi * real k * real m / real n)
          = cis (2 * pi * real k * (real m - real j) / real n)" for j
      by (simp add: cis_mult algebra_simps diff_divide_distrib)
    then show "dft n x k * cis (2 * pi * real k * real m / real n) =
        (\<Sum>j<n. complex_of_real (x ! j) * cis (2 * pi * real k * (real m - real j) / real n))"
      by (simp add: dft_def sum_distrib_right mult.assoc)
  qed
  also have "\<dots> = (\<Sum>j<n. \<Sum>k<n. complex_of_real (x ! j) * cis (2 * pi * real k * (real m - real j) / real n))"
    by (rule sum.swap)
  also have "\<dots> = (\<Sum>j<n. complex_of_real (x ! j) * (if m = j then of_nat n else 0))"
    using assms by (intro sum.cong refl) (simp add: sum_distrib_left [symmetric] root_sum)
  also have "\<dots> = of_nat n * complex_of_real (x ! m)"
    using assms(2) by (simp add: sum.delta' if_distrib [of "\<lambda>z. _ * z"] cong: if_cong)
  finally show ?thesis .
qed

lemma fftw_inverse:
  assumes "0 < n" and "m < n"
  shows "fftw_c2r n (fftw_r2c n x) ! m = real n * x ! m"
proof -
  have "fftw_c2r n (fftw_r2c n x) ! m =
        Re (\<Sum>k<n. hermitian n (fftw_r2c n x) k * cis (2 * pi * real k * real m / real n))"
    using assms(2) by (simp add: fftw_c2r_def nth_map_upt del: upt_Suc)
  also have "(\<Sum>k<n. hermitian n (fftw_r2c n x) k * cis (2 * pi * real k * real m / real n)) =
        (\<Sum>k<n. dft n x k * cis (2 * pi * real k * real m / real n))"
    using assms(1) by (intro sum.cong refl) (simp add: hermitian_dft)
  also have "\<dots> = of_nat n * complex_of_real (x ! m)"
    using assms by (rule dft_inverse_sum)
  finally show ?thesis by simp
qed

lemma dft_dc_real: "Im (dft n x 0) = 0"
  by (simp add: dft_def)

lemma dft_nyquist_real:
  assumes "even n"
  shows "Im (dft n x (n div 2)) = 0"
proof (cases "n = 0")
  case True
  then show ?thesis by (simp add: dft_def)
next
  case False
  then have "2 * pi * real (n div 2) * real m / real n = pi * real m" for m
    using assms by (auto elim!: evenE)
  then show ?thesis by (simp add: dft_def)
qed


section \<open>Closed forms of the forward and the inverse path\<close>

lemma fill_loop:
  assumes "length xs = L"
  shows "for_loop 0 L (\<lambda>j xs. xs[j := f j]) xs = map f [0..<L]"
  using assms by (intro nth_equalityI) (simp_all add: store_loop_length store_loop_nth)

lemma pair_loop_nth:
  assumes "i < length xs" and "2 * b \<le> n + 1"
  shows "for_loop 1 b (\<lambda>j xs. xs[j := r j, n - j := im j]) xs ! i =
         (if 1 \<le> i \<and> i < b then r i
          else if n - b < i \<and> i \<le> n - 1 then im (n - i)
          else xs ! i)"
proof (cases "1 \<le> b")
  case True
  have "for_loop 1 b (\<lambda>j xs. xs[j := r j, n - j := im j]) xs ! i =
         (if 1 \<le> i \<and> i < b then r i
          else if n - b < i \<and> i \<le> n - 1 then im (n - i)
          else xs ! i)"
    by (rule for_loop_rule [where P = "\<lambda>m ys. length ys = length xs \<and>
          ys ! i = (if 1 \<le> i \<and> i < m then r i
                    else if n - m < i \<and> i \<le> n - 1 then im (n - i)
                    else xs ! i)", THEN conjunct2])
       (use assms True in \<open>auto simp: nth_list_update less_Suc_eq\<close>)
  then show ?thesis .
next
  case False
  then show ?thesis by (auto simp: for_loop_done)
qed

lemma for_loop_field:
  assumes "\<And>j t. body j t = put (body' j (get t)) t"
    and "\<And>x y t. put x (put y t) = put x t"
    and "\<And>t. put (get t) t = t"
    and "\<And>x t. get (put x t) = x"
  shows "for_loop a b body s = put (for_loop a b body' (get s)) s"
proof (cases "a \<le> b")
  case True
  show ?thesis
    by (rule for_loop_rule [where P = "\<lambda>m t. t = put (for_loop a m body' (get s)) s"])
       (use True assms in \<open>simp_all add: for_loop_done for_loop_Suc\<close>)
next
  case False
  then show ?thesis by (simp add: for_loop_done assms(3))
qed


subsection \<open>The forward path\<close>

lemma copy_in_loop:
  assumes "length (in_buf s) = n" and "length xs = n"
  shows "for_loop 0 n (\<lambda>j t. t\<lparr>in_buf := (in_buf t)[j := xs ! j]\<rparr>) s = s\<lparr>in_buf := xs\<rparr>"
proof -
  have "for_loop 0 n (\<lambda>j t. t\<lparr>in_buf := (in_buf t)[j := xs ! j]\<rparr>) s =
        s\<lparr>in_buf := for_loop 0 n (\<lambda>j ys. ys[j := xs ! j]) (in_buf s)\<rparr>"
    by (rule for_loop_field [where get = in_buf and put = "\<lambda>x t. t\<lparr>in_buf := x\<rparr>"]) simp_all
  also have "for_loop 0 n (\<lambda>j ys. ys[j := xs ! j]) (in_buf s) = map (\<lambda>j. xs ! j) [0..<n]"
    using assms(1) by (rule fill_loop)
  also have "map (\<lambda>j. xs ! j) [0..<n] = xs"
    using assms(2) map_nth [of xs] by simp
  finally show ?thesis .
qed

lemma pack_loop_length_v:
  "length_v (for_loop a b
     (\<lambda>j c. c\<lparr>data := (data c)[j := r j, length_v c - j := im j]\<rparr>) (t :: fvec_t)) = length_v t"
  by (rule for_loop_inv) simp_all

lemma pack_loop_data:
  "data (for_loop a b
     (\<lambda>j c. c\<lparr>data := (data c)[j := r j, length_v c - j := im j]\<rparr>) (t :: fvec_t)) =
   for_loop a b (\<lambda>j xs. xs[j := r j, length_v t - j := im j]) (data t)"
  by (rule for_loop_proj [where I = "\<lambda>c. length_v c = length_v t"]) simp_all

lemma do_complex_result:
  assumes "fft_inv n s" and "fvec_ok n input" and "fvec_ok n cs" and "0 < n"
  shows "\<exists>cs'. aubio_fft_do_complex s input cs =
            Some (s\<lparr>in_buf := data input, specdata := fftw_r2c n (data input)\<rparr>, cs')
          \<and> fvec_ok n cs'
          \<and> (\<forall>i<n. data cs' ! i =
               (if i = n div 2 then Re (fftw_r2c n (data input) ! (n div 2))
                else if 1 \<le> i \<and> i < n div 2 then Re (fftw_r2c n (data input) ! i)
                else if n - n div 2 < i then Im (fftw_r2c n (data input) ! (n - i))
                else if i = 0 then Re (fftw_r2c n (data input) ! 0)
                else data cs ! i))"
proof -
  define X where "X = fftw_r2c n (data input)"
  define s2 where "s2 = s\<lparr>in_buf := data input, specdata := X\<rparr>"
  define c1 where "c1 = cs\<lparr>data := (data cs)[0 := Re (X ! 0)]\<rparr>"
  define c2 where "c2 = for_loop 1 (n div 2)
     (\<lambda>j c. c\<lparr>data := (data c)[j := Re (X ! j), length_v c - j := Im (X ! j)]\<rparr>) c1"
  define c3 where "c3 = c2\<lparr>data := (data c2)[n div 2 := Re (X ! (n div 2))]\<rparr>"
  have copy: "for_loop 0 n (\<lambda>j t. t\<lparr>in_buf := (in_buf t)[j := data input ! j]\<rparr>) s
              = s\<lparr>in_buf := data input\<rparr>"
    using assms(1,2) by (intro copy_in_loop) (simp_all add: fft_inv_def fvec_ok_def)
  have run: "aubio_fft_do_complex s input cs = Some (s2, c3)"
    using assms(1)
    by (simp add: aubio_fft_do_complex_def copy fft_inv_def s2_def c3_def c2_def c1_def X_def
        Let_def)
  have lv: "length_v c3 = n"
    using assms(3) by (simp add: c3_def c2_def c1_def pack_loop_length_v fvec_ok_def)
  have d2: "data c2 = for_loop 1 (n div 2)
      (\<lambda>j xs. xs[j := Re (X ! j), n - j := Im (X ! j)]) ((data cs)[0 := Re (X ! 0)])"
    using assms(3) by (simp add: c2_def pack_loop_data c1_def fvec_ok_def)
  have len: "length (data c3) = n"
    using assms(3) by (simp add: c3_def d2 store_loop_length fvec_ok_def
        for_loop_inv [where I = "\<lambda>ys. length ys = n"])
  have nth: "data c3 ! i =
               (if i = n div 2 then Re (X ! (n div 2))
                else if 1 \<le> i \<and> i < n div 2 then Re (X ! i)
                else if n - n div 2 < i then Im (X ! (n - i))
                else if i = 0 then Re (X ! 0)
                else data cs ! i)" if "i < n" for i
  proof -
    have "i < length ((data cs)[0 := Re (X ! 0)])"
      using that assms(3) by (simp add: fvec_ok_def)
    moreover have "2 * (n div 2) \<le> n + 1" by simp
    ultimately have "data c2 ! i =
         (if 1 \<le> i \<and> i < n div 2 then Re (X ! i)
          else if n - n div 2 < i \<and> i \<le> n - 1 then Im (X ! (n - i))
          else ((data cs)[0 := Re (X ! 0)]) ! i)"
      unfolding d2 by (rule pair_loop_nth)
    moreover have "length (data c2) = n"
      using len by (simp add: c3_def)
    ultimately show ?thesis
      using that assms(3) by (auto simp: c3_def nth_list_update fvec_ok_def)
  qed
  show ?thesis
    using run lv len nth by (auto simp: fvec_ok_def s2_def X_def)
qed


subsection \<open>The inverse path\<close>

lemma packed_bins_length: "length (packed_bins n c) = n div 2 + 1"
  by (simp add: packed_bins_def)

lemma packed_bins_nth:
  "k \<le> n div 2 \<Longrightarrow> packed_bins n c ! k =
     (if k = n div 2 \<or> k = 0 then complex_of_real (c ! k)
      else complex_of_real (c ! k) + \<i> * complex_of_real (c ! (n - k)))"
  by (simp add: packed_bins_def nth_map_upt del: upt_Suc)

lemma load_spec_loop:
  "for_loop a b (\<lambda>j t. t\<lparr>specdata := (specdata t)[j := f j]\<rparr>) s =
   s\<lparr>specdata := for_loop a b (\<lambda>j xs. xs[j := f j]) (specdata s)\<rparr>"
  by (rule for_loop_field [where get = specdata and put = "\<lambda>x t. t\<lparr>specdata := x\<rparr>"]) simp_all

lemma load_spec_list:
  assumes "length xs = n div 2 + 1"
  shows "(for_loop 1 (n div 2)
            (\<lambda>j xs. xs[j := complex_of_real (c ! j) + \<i> * complex_of_real (c ! (n - j))])
            (xs[0 := complex_of_real (c ! 0)]))
         [n div 2 := complex_of_real (c ! (n div 2))] = packed_bins n c"
  using assms
  by (intro nth_equalityI)
     (auto simp: packed_bins_length packed_bins_nth store_loop_length store_loop_nth
        nth_list_update)

lemma scale_out_loop:
  assumes "length (data output) = L"
  shows "for_loop 0 L (\<lambda>j out. out\<lparr>data := (data out)[j := f j]\<rparr>) output =
         output\<lparr>data := map f [0..<L]\<rparr>"
proof -
  have "for_loop 0 L (\<lambda>j out. out\<lparr>data := (data out)[j := f j]\<rparr>) output =
        output\<lparr>data := for_loop 0 L (\<lambda>j xs. xs[j := f j]) (data output)\<rparr>"
    by (rule for_loop_field [where get = data and put = "\<lambda>x t. t\<lparr>data := x\<rparr>"]) simp_all
  then show ?thesis
    using assms by (simp add: fill_loop)
qed

lemma rdo_complex_result:
  assumes "fft_inv n s" and "fvec_ok n cs" and "fvec_ok L output"
  shows "aubio_fft_rdo_complex s cs output =
         Some (s\<lparr>specdata := packed_bins n (data cs),
                 out_buf := fftw_c2r n (packed_bins n (data cs))\<rparr>,
               output\<lparr>data := map (\<lambda>j. fftw_c2r n (packed_bins n (data cs)) ! j
                                          * (1 / real n)) [0..<L]\<rparr>)"
proof -
  have "length (specdata s) = n div 2 + 1"
    using assms(1) by (simp add: fft_inv_def)
  then have load: "(for_loop (Suc 0) (n div 2)
            (\<lambda>j xs. xs[j := complex_of_real (data cs ! j)
                              + \<i> * complex_of_real (data cs ! (n - j))])
            ((specdata s)[0 := complex_of_real (data cs ! 0)]))
         [n div 2 := complex_of_real (data cs ! (n div 2))] = packed_bins n (data cs)"
    using load_spec_list [of "specdata s" n "data cs"] by simp
  show ?thesis
    using assms
    by (simp add: aubio_fft_rdo_complex_def fft_inv_def fvec_ok_def Let_def load_spec_loop load
        scale_out_loop)
qed

subsection \<open>The two entry points\<close>

lemma do_result:
  assumes "fft_inv n s" and "fvec_ok n input" and "0 < n"
  shows "\<exists>cs'. aubio_fft_do s input spectrum =
            Some (s\<lparr>in_buf := data input, specdata := fftw_r2c n (data input),
                    compspec := cs'\<rparr>,
                  aubio_fft_get_spectrum cs' spectrum)
          \<and> fvec_ok n cs'
          \<and> (\<forall>i<n. data cs' ! i =
               (if i = n div 2 then Re (fftw_r2c n (data input) ! (n div 2))
                else if 1 \<le> i \<and> i < n div 2 then Re (fftw_r2c n (data input) ! i)
                else if n - n div 2 < i then Im (fftw_r2c n (data input) ! (n - i))
                else if i = 0 then Re (fftw_r2c n (data input) ! 0)
                else data (compspec s) ! i))"
proof -
  have "fvec_ok n (compspec s)" using assms(1) by (simp add: fft_inv_def)
  from do_complex_result [OF assms(1,2) this assms(3)]
  obtain cs' where
    "aubio_fft_do_complex s input (compspec s) =
       Some (s\<lparr>in_buf := data input, specdata := fftw_r2c n (data input)\<rparr>, cs')"
    and "fvec_ok n cs'"
    and "\<forall>i<n. data cs' ! i =
               (if i = n div 2 then Re (fftw_r2c n (data input) ! (n div 2))
                else if 1 \<le> i \<and> i < n div 2 then Re (fftw_r2c n (data input) ! i)
                else if n - n div 2 < i then Im (fftw_r2c n (data input) ! (n - i))
                else if i = 0 then Re (fftw_r2c n (data input) ! 0)
                else data (compspec s) ! i)"
    by blast
  then show ?thesis
    by (intro exI [of _ cs']) (simp add: aubio_fft_do_def)
qed

lemma rdo_result:
  assumes "fft_inv n s" and "fvec_ok L output"
  shows "aubio_fft_rdo s spectrum output =
         Some (s\<lparr>compspec := aubio_fft_get_realimag spectrum (compspec s),
                 specdata := packed_bins n (data (aubio_fft_get_realimag spectrum (compspec s))),
                 out_buf := fftw_c2r n
                   (packed_bins n (data (aubio_fft_get_realimag spectrum (compspec s))))\<rparr>,
               output\<lparr>data := map (\<lambda>j. fftw_c2r n
                   (packed_bins n (data (aubio_fft_get_realimag spectrum (compspec s)))) ! j
                                          * (1 / real n)) [0..<L]\<rparr>)"
proof -
  define cs where "cs = aubio_fft_get_realimag spectrum (compspec s)"
  have ok: "fvec_ok n cs"
    using assms(1) by (simp add: cs_def fft_inv_def get_realimag_ok)
  then have "fft_inv n (s\<lparr>compspec := cs\<rparr>)"
    using assms(1) by (simp add: fft_inv_def)
  from rdo_complex_result [OF this ok assms(2)] show ?thesis
    by (simp add: aubio_fft_rdo_def Let_def cs_def [symmetric])
qed

lemma do_inv:
  assumes "fft_inv n s" and "fvec_ok n input" and "0 < n"
    and "aubio_fft_do s input spectrum = Some (s', sp)"
  shows "fft_inv n s'"
  using do_result [OF assms(1-3), of spectrum] assms(1,2,4)
  by (auto simp: fft_inv_def fftw_r2c_length fvec_ok_def)

lemma rdo_inv:
  assumes "fft_inv n s" and "fvec_ok L output"
    and "aubio_fft_rdo s spectrum output = Some (s', out)"
  shows "fft_inv n s'"
  using rdo_result [OF assms(1,2), of spectrum] assms(1,3) get_realimag_ok [of n "compspec s"]
  by (auto simp: fft_inv_def packed_bins_length fftw_c2r_length)


section \<open>Closed forms for the build without \<^verbatim>\<open>HAVE_COMPLEX_H\<close>\<close>

lemma fftw_r2hc_length: "length (fftw_r2hc n x) = n"
  by (simp add: fftw_r2hc_def)

lemma fftw_r2hc_nth:
  "i < n \<Longrightarrow> fftw_r2hc n x ! i = (if i \<le> n div 2 then Re (dft n x i) else Im (dft n x (n - i)))"
  by (simp add: fftw_r2hc_def nth_map_upt del: upt_Suc)

lemma halfcomplex_bins_length: "length (halfcomplex_bins n h) = n div 2 + 1"
  by (simp add: halfcomplex_bins_def)

lemma halfcomplex_bins_nth:
  "k \<le> n div 2 \<Longrightarrow> halfcomplex_bins n h ! k =
     (if k = 0 \<or> 2 * k = n then complex_of_real (h ! k)
      else complex_of_real (h ! k) + \<i> * complex_of_real (h ! (n - k)))"
  by (simp add: halfcomplex_bins_def nth_map_upt del: upt_Suc)

lemma halfcomplex_bins_r2hc:
  assumes "0 < n"
  shows "halfcomplex_bins n (fftw_r2hc n x) = fftw_r2c n x"
proof (rule nth_equalityI)
  show "length (halfcomplex_bins n (fftw_r2hc n x)) = length (fftw_r2c n x)"
    by (simp add: halfcomplex_bins_length fftw_r2c_length)
next
  fix k assume "k < length (halfcomplex_bins n (fftw_r2hc n x))"
  then have k: "k \<le> n div 2" by (simp add: halfcomplex_bins_length)
  then have kn: "k < n" using assms by linarith
  show "halfcomplex_bins n (fftw_r2hc n x) ! k = fftw_r2c n x ! k"
  proof (cases "k = 0 \<or> 2 * k = n")
    case True
    then have "Im (dft n x k) = 0"
    proof
      assume "k = 0"
      then show ?thesis by (simp add: dft_dc_real)
    next
      assume "2 * k = n"
      then have "even n" "k = n div 2" by auto
      then show ?thesis by (simp add: dft_nyquist_real)
    qed
    then have "dft n x k = complex_of_real (Re (dft n x k))"
      by (simp add: complex_eq_iff)
    then show ?thesis
      using True k kn by (simp add: halfcomplex_bins_nth fftw_r2hc_nth fftw_r2c_nth)
  next
    case False
    then have "n - k < n" "\<not> n - k \<le> n div 2" "n - (n - k) = k"
      using k by linarith+
    then show ?thesis
      using False k kn
      by (simp add: halfcomplex_bins_nth fftw_r2hc_nth fftw_r2c_nth complex_eq_iff)
  qed
qed

lemma fftw_hc_inverse:
  assumes "0 < n" and "m < n"
  shows "fftw_hc2r n (fftw_r2hc n x) ! m = real n * x ! m"
  using assms by (simp add: fftw_hc2r_def halfcomplex_bins_r2hc fftw_inverse)

lemma fftw_hc2r_length: "length (fftw_hc2r n h) = n"
  by (simp add: fftw_hc2r_def fftw_c2r_length)

lemma copy_data_loop:
  assumes "length (data c) = n" and "length xs = n"
  shows "for_loop 0 n (\<lambda>j c. c\<lparr>data := (data c)[j := xs ! j]\<rparr>) c = c\<lparr>data := xs\<rparr>"
  using assms map_nth [of xs] by (simp add: scale_out_loop)

lemma copy_spec_loop:
  assumes "length (specdata s) = n" and "length xs = n"
  shows "for_loop 0 n (\<lambda>j t. t\<lparr>specdata := (specdata t)[j := xs ! j]\<rparr>) s = s\<lparr>specdata := xs\<rparr>"
  using assms map_nth [of xs] by (simp add: load_spec_loop fill_loop)

lemma do_complex_hc_result:
  assumes "fft_inv_hc n s" and "fvec_ok n input" and "fvec_ok n cs"
  shows "aubio_fft_do_complex_hc s input cs =
         Some (s\<lparr>in_buf := data input, specdata := fftw_r2hc n (data input)\<rparr>,
               cs\<lparr>data := fftw_r2hc n (data input)\<rparr>)"
proof -
  have copy: "for_loop 0 n (\<lambda>j t. t\<lparr>in_buf := (in_buf t)[j := data input ! j]\<rparr>) s
              = s\<lparr>in_buf := data input\<rparr>"
    using assms(1,2) by (intro copy_in_loop) (simp_all add: fft_inv_hc_def fvec_ok_def)
  have fill: "for_loop 0 n (\<lambda>j c. c\<lparr>data := (data c)[j := fftw_r2hc n (data input) ! j]\<rparr>) cs
              = cs\<lparr>data := fftw_r2hc n (data input)\<rparr>"
    using assms(3) by (intro copy_data_loop) (simp_all add: fvec_ok_def fftw_r2hc_length)
  show ?thesis
    using assms(1) by (simp add: aubio_fft_do_complex_hc_def fft_inv_hc_def copy fill Let_def)
qed

lemma rdo_complex_hc_result:
  assumes "fft_inv_hc n s" and "fvec_ok n cs" and "fvec_ok L output"
  shows "aubio_fft_rdo_complex_hc s cs output =
         Some (s\<lparr>specdata := data cs, out_buf := fftw_hc2r n (data cs)\<rparr>,
               output\<lparr>data := map (\<lambda>j. fftw_hc2r n (data cs) ! j * (1 / real n)) [0..<L]\<rparr>)"
proof -
  have load: "for_loop 0 n (\<lambda>j t. t\<lparr>specdata := (specdata t)[j := data cs ! j]\<rparr>) s
              = s\<lparr>specdata := data cs\<rparr>"
    using assms(1,2) by (intro copy_spec_loop) (simp_all add: fft_inv_hc_def fvec_ok_def)
  show ?thesis
    using assms
    by (simp add: aubio_fft_rdo_complex_hc_def fft_inv_hc_def fvec_ok_def Let_def load
        scale_out_loop)
qed

lemma do_hc_result:
  assumes "fft_inv_hc n s" and "fvec_ok n input"
  shows "aubio_fft_do_hc s input spectrum =
         Some (s\<lparr>in_buf := data input, specdata := fftw_r2hc n (data input),
                 compspec := (compspec s)\<lparr>data := fftw_r2hc n (data input)\<rparr>\<rparr>,
               aubio_fft_get_spectrum ((compspec s)\<lparr>data := fftw_r2hc n (data input)\<rparr>)
                 spectrum)"
proof -
  have "fvec_ok n (compspec s)" using assms(1) by (simp add: fft_inv_hc_def)
  from do_complex_hc_result [OF assms this] show ?thesis
    by (simp add: aubio_fft_do_hc_def)
qed

lemma rdo_hc_result:
  assumes "fft_inv_hc n s" and "fvec_ok L output"
  shows "aubio_fft_rdo_hc s spectrum output =
         Some (s\<lparr>compspec := aubio_fft_get_realimag spectrum (compspec s),
                 specdata := data (aubio_fft_get_realimag spectrum (compspec s)),
                 out_buf := fftw_hc2r n (data (aubio_fft_get_realimag spectrum (compspec s)))\<rparr>,
               output\<lparr>data := map (\<lambda>j. fftw_hc2r n
                   (data (aubio_fft_get_realimag spectrum (compspec s))) ! j
                                          * (1 / real n)) [0..<L]\<rparr>)"
proof -
  define cs where "cs = aubio_fft_get_realimag spectrum (compspec s)"
  have ok: "fvec_ok n cs"
    using assms(1) by (simp add: cs_def fft_inv_hc_def get_realimag_ok)
  then have "fft_inv_hc n (s\<lparr>compspec := cs\<rparr>)"
    using assms(1) by (simp add: fft_inv_hc_def)
  from rdo_complex_hc_result [OF this ok assms(2)] show ?thesis
    by (simp add: aubio_fft_rdo_hc_def Let_def cs_def [symmetric])
qed

lemma do_hc_inv:
  assumes "fft_inv_hc n s" and "fvec_ok n input"
    and "aubio_fft_do_hc s input spectrum = Some (s', sp)"
  shows "fft_inv_hc n s'"
  using do_hc_result [OF assms(1,2), of spectrum] assms
  by (auto simp: fft_inv_hc_def fftw_r2hc_length fvec_ok_def)

lemma rdo_hc_inv:
  assumes "fft_inv_hc n s" and "fvec_ok L output"
    and "aubio_fft_rdo_hc s spectrum output = Some (s', out)"
  shows "fft_inv_hc n s'"
  using rdo_hc_result [OF assms(1,2), of spectrum] assms(1,3) get_realimag_ok [of n "compspec s"]
  by (auto simp: fft_inv_hc_def fftw_hc2r_length fvec_ok_def)

section \<open>Construction and destruction: what the code does\<close>

lemma replicate_update_same: "(replicate n x)[i := x] = replicate n x"
  by (cases "i < n") (auto simp: list_eq_iff_nth_eq nth_list_update)

lemma new_aubio_fft_result:
  "snd (new_aubio_fft accepts n) =
   Some \<lparr>winsize = n, fft_size = n div 2 + 1,
         in_buf = replicate n 0, out_buf = replicate n 0,
         pfw = fftw_plan_dft_r2c_1d accepts n, pbw = fftw_plan_dft_c2r_1d accepts n,
         specdata = replicate (n div 2 + 1) 0, compspec = new_fvec n\<rparr>"
proof -
  define s where "s = \<lparr>winsize = n, fft_size = n div 2 + 1,
         in_buf = replicate n 0, out_buf = replicate n 0,
         pfw = fftw_plan_dft_r2c_1d accepts n, pbw = fftw_plan_dft_c2r_1d accepts n,
         specdata = replicate (n div 2 + 1) (0::complex), compspec = new_fvec n\<rparr>"
  have 1: "for_loop 0 a
      (\<lambda>i t. t\<lparr>in_buf := (in_buf t)[i := 0], out_buf := (out_buf t)[i := 0]\<rparr>) s = s" for a
    by (rule for_loop_inv [where I = "\<lambda>t. t = s"]) (simp_all add: s_def replicate_update_same)
  have 2: "for_loop 0 a (\<lambda>i t. t\<lparr>specdata := (specdata t)[i := 0]\<rparr>) s = s" for a
    by (rule for_loop_inv [where I = "\<lambda>t. t = s"])
       (simp_all add: s_def replicate_update_same del: replicate.simps)
  show ?thesis
    unfolding new_aubio_fft_def Let_def s_def [symmetric] by (simp add: 1 2)
qed

lemma new_aubio_fft_inv:
  assumes "accepts n"
  shows "\<exists>s. snd (new_aubio_fft accepts n) = Some s \<and> fft_inv n s"
  using assms
  by (simp add: new_aubio_fft_result fft_inv_def fftw_plan_dft_r2c_1d_def
      fftw_plan_dft_c2r_1d_def new_fvec_def fvec_ok_def)

lemma null_plan_crash:
  assumes "pfw s = None" and "pbw s = None"
  shows "aubio_fft_do s input spectrum = None \<and> aubio_fft_rdo s spectrum output = None"
proof -
  have "pfw (for_loop a b (\<lambda>j t. t\<lparr>in_buf := (in_buf t)[j := f j]\<rparr>) s) = None" for a b f
    by (rule for_loop_inv) (simp_all add: assms)
  moreover have "pbw (for_loop a b (\<lambda>j t. t\<lparr>specdata := (specdata t)[j := g j]\<rparr>) t) = pbw t"
    for a b g and t :: "(complex, fftw_kind) aubio_fft_t"
    by (rule for_loop_inv) simp_all
  ultimately show ?thesis
    using assms
    by (simp add: aubio_fft_do_def aubio_fft_do_complex_def aubio_fft_rdo_def
        aubio_fft_rdo_complex_def Let_def)
qed

lemma new_aubio_fft_hc_result:
  "snd (new_aubio_fft_hc accepts n) =
   Some \<lparr>winsize = n, fft_size = n,
         in_buf = replicate n 0, out_buf = replicate n 0,
         pfw = fftw_plan_r2r_1d accepts n FFTW_R2HC, pbw = fftw_plan_r2r_1d accepts n FFTW_HC2R,
         specdata = replicate n 0, compspec = new_fvec n\<rparr>"
proof -
  define s where "s = \<lparr>winsize = n, fft_size = n,
         in_buf = replicate n 0, out_buf = replicate n 0,
         pfw = fftw_plan_r2r_1d accepts n FFTW_R2HC, pbw = fftw_plan_r2r_1d accepts n FFTW_HC2R,
         specdata = replicate n (0::real), compspec = new_fvec n\<rparr>"
  have 1: "for_loop 0 a
      (\<lambda>i t. t\<lparr>in_buf := (in_buf t)[i := 0], out_buf := (out_buf t)[i := 0]\<rparr>) s = s" for a
    by (rule for_loop_inv [where I = "\<lambda>t. t = s"]) (simp_all add: s_def replicate_update_same)
  have 2: "for_loop 0 a (\<lambda>i t. t\<lparr>specdata := (specdata t)[i := 0]\<rparr>) s = s" for a
    by (rule for_loop_inv [where I = "\<lambda>t. t = s"])
       (simp_all add: s_def replicate_update_same del: replicate.simps)
  show ?thesis
    unfolding new_aubio_fft_hc_def Let_def s_def [symmetric] by (simp add: 1 2)
qed

lemma new_aubio_fft_hc_inv:
  assumes "accepts n"
  shows "\<exists>s. snd (new_aubio_fft_hc accepts n) = Some s \<and> fft_inv_hc n s"
  using assms
  by (simp add: new_aubio_fft_hc_result fft_inv_hc_def fftw_plan_r2r_1d_def
      new_fvec_def fvec_ok_def)

lemma null_plan_crash_hc:
  assumes "pfw s = None" and "pbw s = None"
  shows "aubio_fft_do_hc s input spectrum = None \<and> aubio_fft_rdo_hc s spectrum output = None"
proof -
  have "pfw (for_loop a b (\<lambda>j t. t\<lparr>in_buf := (in_buf t)[j := f j]\<rparr>) s) = None" for a b f
    by (rule for_loop_inv) (simp_all add: assms)
  moreover have "pbw (for_loop a b (\<lambda>j t. t\<lparr>specdata := (specdata t)[j := g j]\<rparr>) t) = pbw t"
    for a b g and t :: "(real, fftw_r2r_kind) aubio_fft_t"
    by (rule for_loop_inv) simp_all
  ultimately show ?thesis
    using assms
    by (simp add: aubio_fft_do_hc_def aubio_fft_do_complex_hc_def aubio_fft_rdo_hc_def
        aubio_fft_rdo_complex_hc_def Let_def)
qed

text \<open>
  Claim C7 (construction errors). The claim asks that a window size the planner rejects makes
  \<^verbatim>\<open>new_aubio_fft\<close> signal an error and return no instance. The code has no error path.
  What holds instead: for a rejected size, \<^verbatim>\<open>new_aubio_fft\<close> still returns an instance, with
  the window size, the bin count and zeroed buffers set as for an accepted size, and with
  both plan handles null (in either build).
\<close>

theorem new_aubio_fft_rejected:
  assumes "\<not> accepts n"
  shows "snd (new_aubio_fft accepts n) =
   Some \<lparr>winsize = n, fft_size = n div 2 + 1,
         in_buf = replicate n 0, out_buf = replicate n 0,
         pfw = None, pbw = None,
         specdata = replicate (n div 2 + 1) 0, compspec = new_fvec n\<rparr>
   \<and> snd (new_aubio_fft_hc accepts n) =
   Some \<lparr>winsize = n, fft_size = n,
         in_buf = replicate n 0, out_buf = replicate n 0,
         pfw = None, pbw = None,
         specdata = replicate n 0, compspec = new_fvec n\<rparr>"
  using assms
  by (simp add: new_aubio_fft_result fftw_plan_dft_r2c_1d_def fftw_plan_dft_c2r_1d_def
      new_aubio_fft_hc_result fftw_plan_r2r_1d_def)

theorem new_aubio_fft_rejected_witness:
  "\<not> fftw_accepts 0
   \<and> snd (new_aubio_fft fftw_accepts 0) =
     Some \<lparr>winsize = 0, fft_size = 1, in_buf = [], out_buf = [], pfw = None, pbw = None,
           specdata = [0], compspec = \<lparr>length_v = 0, data = []\<rparr>\<rparr>
   \<and> snd (new_aubio_fft_hc fftw_accepts 0) =
     Some \<lparr>winsize = 0, fft_size = 0, in_buf = [], out_buf = [], pfw = None, pbw = None,
           specdata = [], compspec = \<lparr>length_v = 0, data = []\<rparr>\<rparr>"
  using new_aubio_fft_rejected [of fftw_accepts 0]
  by (simp add: fftw_accepts_def new_fvec_def)

theorem new_aubio_fft_zero_counterexample:
  "fftw_plan_dft_r2c_1d fftw_accepts 0 = None
   \<and> fftw_plan_dft_c2r_1d fftw_accepts 0 = None
   \<and> snd (new_aubio_fft fftw_accepts 0) \<noteq> None
   \<and> fftw_plan_r2r_1d fftw_accepts 0 FFTW_R2HC = None
   \<and> fftw_plan_r2r_1d fftw_accepts 0 FFTW_HC2R = None
   \<and> snd (new_aubio_fft_hc fftw_accepts 0) \<noteq> None"
  by (simp add: new_aubio_fft_result fftw_plan_dft_r2c_1d_def fftw_plan_dft_c2r_1d_def
      new_aubio_fft_hc_result fftw_plan_r2r_1d_def fftw_accepts_def)

text \<open>
  Claim C8 (destruction holds the planning mutex). The code differs: \<^verbatim>\<open>new_aubio_fft\<close> makes
  its two plan-creation calls between locking and unlocking \<^verbatim>\<open>aubio_fftw_mutex\<close>, while
  \<^verbatim>\<open>del_aubio_fft\<close> makes its two plan-destruction calls without ever locking it.
\<close>

theorem del_aubio_fft_unlocked:
  "plan_calls_locked False (fst (new_aubio_fft accepts n))
   \<and> plan_calls_locked False (fst (new_aubio_fft_hc accepts n))
   \<and> \<not> plan_calls_locked False (del_aubio_fft s)
   \<and> Mutex_lock \<notin> set (del_aubio_fft s)"
  by (simp add: new_aubio_fft_def new_aubio_fft_hc_def del_aubio_fft_def Let_def)

section \<open>Scaling on the two paths\<close>

lemma normalization_asymmetry_c:
  assumes "fft_inv n s" and "0 < n" and "fvec_ok n input" and "fvec_ok n cs"
    and "fvec_ok n output"
  shows "(\<exists>s1 c1. aubio_fft_do_complex s input cs = Some (s1, c1)
            \<and> specdata s1 = fftw_r2c n (data input)
            \<and> (\<forall>k \<le> n div 2. data c1 ! k = Re (specdata s1 ! k))
            \<and> (\<forall>k. 1 \<le> k \<and> k < n div 2 \<longrightarrow> data c1 ! (n - k) = Im (specdata s1 ! k)))
       \<and> (\<exists>s2 out. aubio_fft_rdo_complex s cs output = Some (s2, out)
            \<and> out_buf s2 = fftw_c2r n (packed_bins n (data cs))
            \<and> length (data out) = n
            \<and> (\<forall>j < n. data out ! j = out_buf s2 ! j * (1 / real n)))"
proof
  from do_complex_result [OF assms(1,3,4,2)] obtain c1 where
    run: "aubio_fft_do_complex s input cs =
       Some (s\<lparr>in_buf := data input, specdata := fftw_r2c n (data input)\<rparr>, c1)"
    and nth: "\<And>i. i < n \<Longrightarrow> data c1 ! i =
               (if i = n div 2 then Re (fftw_r2c n (data input) ! (n div 2))
                else if 1 \<le> i \<and> i < n div 2 then Re (fftw_r2c n (data input) ! i)
                else if n - n div 2 < i then Im (fftw_r2c n (data input) ! (n - i))
                else if i = 0 then Re (fftw_r2c n (data input) ! 0)
                else data cs ! i)"
    by blast
  have re: "data c1 ! k = Re (fftw_r2c n (data input) ! k)" if "k \<le> n div 2" for k
  proof -
    have "k < n" using that assms(2) by linarith
    then show ?thesis using that nth [of k] by (cases "k = 0") auto
  qed
  have im: "data c1 ! (n - k) = Im (fftw_r2c n (data input) ! k)"
    if "1 \<le> k \<and> k < n div 2" for k
  proof -
    have "n - k < n" "n - n div 2 < n - k" "n - k \<noteq> n div 2" "\<not> n - k < n div 2"
      "n - (n - k) = k"
      using that by linarith+
    then show ?thesis using nth [of "n - k"] by simp
  qed
  show "\<exists>s1 c1. aubio_fft_do_complex s input cs = Some (s1, c1)
            \<and> specdata s1 = fftw_r2c n (data input)
            \<and> (\<forall>k \<le> n div 2. data c1 ! k = Re (specdata s1 ! k))
            \<and> (\<forall>k. 1 \<le> k \<and> k < n div 2 \<longrightarrow> data c1 ! (n - k) = Im (specdata s1 ! k))"
    using run re im by simp
next
  show "\<exists>s2 out. aubio_fft_rdo_complex s cs output = Some (s2, out)
            \<and> out_buf s2 = fftw_c2r n (packed_bins n (data cs))
            \<and> length (data out) = n
            \<and> (\<forall>j < n. data out ! j = out_buf s2 ! j * (1 / real n))"
    using rdo_complex_result [OF assms(1,4,5)] by (simp add: nth_map_upt del: upt_Suc)
qed

lemma normalization_asymmetry_hc:
  assumes "fft_inv_hc n t" and "fvec_ok n input" and "fvec_ok n cs" and "fvec_ok n output"
  shows "(\<exists>t1 c1. aubio_fft_do_complex_hc t input cs = Some (t1, c1)
            \<and> specdata t1 = fftw_r2hc n (data input)
            \<and> data c1 = specdata t1)
       \<and> (\<exists>t2 out. aubio_fft_rdo_complex_hc t cs output = Some (t2, out)
            \<and> out_buf t2 = fftw_hc2r n (data cs)
            \<and> length (data out) = n
            \<and> (\<forall>j < n. data out ! j = out_buf t2 ! j * (1 / real n)))"
  using do_complex_hc_result [OF assms(1-3)] rdo_complex_hc_result [OF assms(1,3,4)]
  by (simp add: nth_map_upt del: upt_Suc)

text \<open>
  Claim C6 (normalization asymmetry). On an instance of window size \<open>n > 0\<close>, in either
  build, \<^verbatim>\<open>aubio_fft_do_complex\<close> stores the engine's forward output unscaled into the packed
  vector (the real and imaginary parts of the bins in the complex build, the half-complex
  array as it is in the other), and every sample of the frame written by
  \<^verbatim>\<open>aubio_fft_rdo_complex\<close> is the engine's unnormalized inverse output (on the data loaded
  from the packed vector) times \<open>1 / n\<close>.
\<close>

theorem normalization_asymmetry:
  assumes "fft_inv n s" and "fft_inv_hc n t" and "0 < n" and "fvec_ok n input"
    and "fvec_ok n cs" and "fvec_ok n output"
  shows "((\<exists>s1 c1. aubio_fft_do_complex s input cs = Some (s1, c1)
            \<and> specdata s1 = fftw_r2c n (data input)
            \<and> (\<forall>k \<le> n div 2. data c1 ! k = Re (specdata s1 ! k))
            \<and> (\<forall>k. 1 \<le> k \<and> k < n div 2 \<longrightarrow> data c1 ! (n - k) = Im (specdata s1 ! k)))
       \<and> (\<exists>s2 out. aubio_fft_rdo_complex s cs output = Some (s2, out)
            \<and> out_buf s2 = fftw_c2r n (packed_bins n (data cs))
            \<and> length (data out) = n
            \<and> (\<forall>j < n. data out ! j = out_buf s2 ! j * (1 / real n))))
       \<and> ((\<exists>t1 c1. aubio_fft_do_complex_hc t input cs = Some (t1, c1)
            \<and> specdata t1 = fftw_r2hc n (data input)
            \<and> data c1 = specdata t1)
       \<and> (\<exists>t2 out. aubio_fft_rdo_complex_hc t cs output = Some (t2, out)
            \<and> out_buf t2 = fftw_hc2r n (data cs)
            \<and> length (data out) = n
            \<and> (\<forall>j < n. data out ! j = out_buf t2 ! j * (1 / real n))))"
proof (rule conjI)
  show "(\<exists>s1 c1. aubio_fft_do_complex s input cs = Some (s1, c1)
            \<and> specdata s1 = fftw_r2c n (data input)
            \<and> (\<forall>k \<le> n div 2. data c1 ! k = Re (specdata s1 ! k))
            \<and> (\<forall>k. 1 \<le> k \<and> k < n div 2 \<longrightarrow> data c1 ! (n - k) = Im (specdata s1 ! k)))
       \<and> (\<exists>s2 out. aubio_fft_rdo_complex s cs output = Some (s2, out)
            \<and> out_buf s2 = fftw_c2r n (packed_bins n (data cs))
            \<and> length (data out) = n
            \<and> (\<forall>j < n. data out ! j = out_buf s2 ! j * (1 / real n)))"
    using assms(1,3-6) by (rule normalization_asymmetry_c)
  show "(\<exists>t1 c1. aubio_fft_do_complex_hc t input cs = Some (t1, c1)
            \<and> specdata t1 = fftw_r2hc n (data input)
            \<and> data c1 = specdata t1)
       \<and> (\<exists>t2 out. aubio_fft_rdo_complex_hc t cs output = Some (t2, out)
            \<and> out_buf t2 = fftw_hc2r n (data cs)
            \<and> length (data out) = n
            \<and> (\<forall>j < n. data out ! j = out_buf t2 ! j * (1 / real n)))"
    using assms(2,4-6) by (rule normalization_asymmetry_hc)
qed

theorem normalization_asymmetry_witness:
  "fft_inv 2 \<lparr>winsize = 2, fft_size = 2, in_buf = [0, 0], out_buf = [0, 0],
      pfw = Some (R2C, 2), pbw = Some (C2R, 2), specdata = [0, 0],
      compspec = \<lparr>length_v = 2, data = [0, 0]\<rparr>\<rparr>
   \<and> fft_inv_hc 2 \<lparr>winsize = 2, fft_size = 2, in_buf = [0, 0], out_buf = [0, 0],
      pfw = Some (FFTW_R2HC, 2), pbw = Some (FFTW_HC2R, 2), specdata = [0, 0],
      compspec = \<lparr>length_v = 2, data = [0, 0]\<rparr>\<rparr>
   \<and> (0::nat) < 2 \<and> fvec_ok 2 \<lparr>length_v = 2, data = [3, - 1]\<rparr>
   \<and> fvec_ok 2 \<lparr>length_v = 2, data = [4, 2]\<rparr> \<and> fvec_ok 2 \<lparr>length_v = 2, data = [0, 0]\<rparr>
   \<and> aubio_fft_do_complex \<lparr>winsize = 2, fft_size = 2, in_buf = [0, 0], out_buf = [0, 0],
      pfw = Some (R2C, 2), pbw = Some (C2R, 2), specdata = [0, 0],
      compspec = \<lparr>length_v = 2, data = [0, 0]\<rparr>\<rparr>
         \<lparr>length_v = 2, data = [3, - 1]\<rparr> \<lparr>length_v = 2, data = [4, 2]\<rparr> \<noteq> None
   \<and> aubio_fft_rdo_complex \<lparr>winsize = 2, fft_size = 2, in_buf = [0, 0], out_buf = [0, 0],
      pfw = Some (R2C, 2), pbw = Some (C2R, 2), specdata = [0, 0],
      compspec = \<lparr>length_v = 2, data = [0, 0]\<rparr>\<rparr>
         \<lparr>length_v = 2, data = [4, 2]\<rparr> \<lparr>length_v = 2, data = [0, 0]\<rparr> \<noteq> None
   \<and> aubio_fft_do_complex_hc \<lparr>winsize = 2, fft_size = 2, in_buf = [0, 0], out_buf = [0, 0],
      pfw = Some (FFTW_R2HC, 2), pbw = Some (FFTW_HC2R, 2), specdata = [0, 0],
      compspec = \<lparr>length_v = 2, data = [0, 0]\<rparr>\<rparr>
         \<lparr>length_v = 2, data = [3, - 1]\<rparr> \<lparr>length_v = 2, data = [4, 2]\<rparr> \<noteq> None
   \<and> aubio_fft_rdo_complex_hc \<lparr>winsize = 2, fft_size = 2, in_buf = [0, 0], out_buf = [0, 0],
      pfw = Some (FFTW_R2HC, 2), pbw = Some (FFTW_HC2R, 2), specdata = [0, 0],
      compspec = \<lparr>length_v = 2, data = [0, 0]\<rparr>\<rparr>
         \<lparr>length_v = 2, data = [4, 2]\<rparr> \<lparr>length_v = 2, data = [0, 0]\<rparr> \<noteq> None"
proof -
  have h: "fft_inv 2 \<lparr>winsize = 2, fft_size = 2, in_buf = [0, 0], out_buf = [0, 0],
      pfw = Some (R2C, 2), pbw = Some (C2R, 2), specdata = [0, 0],
      compspec = \<lparr>length_v = 2, data = [0, 0]\<rparr>\<rparr>"
    "fft_inv_hc 2 \<lparr>winsize = 2, fft_size = 2, in_buf = [0, 0], out_buf = [0, 0],
      pfw = Some (FFTW_R2HC, 2), pbw = Some (FFTW_HC2R, 2), specdata = [0, 0],
      compspec = \<lparr>length_v = 2, data = [0, 0]\<rparr>\<rparr>"
    "(0::nat) < 2" "fvec_ok 2 \<lparr>length_v = 2, data = [3, - 1]\<rparr>"
    "fvec_ok 2 \<lparr>length_v = 2, data = [4, 2]\<rparr>" "fvec_ok 2 \<lparr>length_v = 2, data = [0, 0]\<rparr>"
    by (simp_all add: fft_inv_def fft_inv_hc_def fvec_ok_def)
  from normalization_asymmetry [OF h] show ?thesis
    using h by auto
qed

section \<open>Scratch buffers carry nothing from one call to the next\<close>

lemma realimag_data_cong:
  assumes "fvec_ok n c" and "fvec_ok n c'"
  shows "data (aubio_fft_get_realimag sp c) = data (aubio_fft_get_realimag sp c')"
proof (rule nth_equalityI)
  show "length (data (aubio_fft_get_realimag sp c)) = length (data (aubio_fft_get_realimag sp c'))"
    using get_realimag_ok [OF assms(1)] get_realimag_ok [OF assms(2)]
    by (simp add: fvec_ok_def)
next
  fix i assume "i < length (data (aubio_fft_get_realimag sp c))"
  then have "i < n" using get_realimag_ok [OF assms(1), of sp] by (simp add: fvec_ok_def)
  then show "data (aubio_fft_get_realimag sp c) ! i = data (aubio_fft_get_realimag sp c') ! i"
    using assms by (simp add: get_realimag_nth [where n = n])
qed

lemma spectrum_cong:
  assumes "cvec_ok (n div 2 + 1) sp" and "cvec_ok (n div 2 + 1) sp'" and "0 < n"
    and "length_v c = n" and "length_v c' = n"
    and "data c ! 0 = data c' ! 0" and "data c ! (n div 2) = data c' ! (n div 2)"
    and "\<And>k. 1 \<le> k \<Longrightarrow> k < n div 2 \<Longrightarrow>
           data c ! k = data c' ! k \<and> data c ! (n - k) = data c' ! (n - k)"
  shows "aubio_fft_get_spectrum c sp = aubio_fft_get_spectrum c' sp'"
proof (rule cvec_t.equality)
  have ok: "cvec_ok (n div 2 + 1) (aubio_fft_get_spectrum c sp)"
    "cvec_ok (n div 2 + 1) (aubio_fft_get_spectrum c' sp')"
    using assms(1,2) by (simp_all add: get_spectrum_ok)
  then show "length_c (aubio_fft_get_spectrum c sp) = length_c (aubio_fft_get_spectrum c' sp')"
    by (simp add: cvec_ok_def)
  show "norm_c (aubio_fft_get_spectrum c sp) = norm_c (aubio_fft_get_spectrum c' sp')"
  proof (rule nth_equalityI)
    show "length (norm_c (aubio_fft_get_spectrum c sp)) =
          length (norm_c (aubio_fft_get_spectrum c' sp'))"
      using ok by (simp add: cvec_ok_def)
  next
    fix k assume "k < length (norm_c (aubio_fft_get_spectrum c sp))"
    then have "k < n div 2 + 1" using ok by (simp add: cvec_ok_def)
    then show "norm_c (aubio_fft_get_spectrum c sp) ! k =
               norm_c (aubio_fft_get_spectrum c' sp') ! k"
      using assms(1,2,4-7) assms(8) [of k]
      by (simp add: get_spectrum_norm_nth [where n = "n div 2 + 1"])
  qed
  show "phas (aubio_fft_get_spectrum c sp) = phas (aubio_fft_get_spectrum c' sp')"
  proof (rule nth_equalityI)
    show "length (phas (aubio_fft_get_spectrum c sp)) =
          length (phas (aubio_fft_get_spectrum c' sp'))"
      using ok by (simp add: cvec_ok_def)
  next
    fix k assume "k < length (phas (aubio_fft_get_spectrum c sp))"
    then have "k < n div 2 + 1" using ok by (simp add: cvec_ok_def)
    then show "phas (aubio_fft_get_spectrum c sp) ! k =
               phas (aubio_fft_get_spectrum c' sp') ! k"
      using assms(1,2,4-7) assms(8) [of k]
      by (simp add: get_spectrum_phas_nth [where n = "n div 2 + 1"])
  qed
qed simp

lemma frame_cong:
  assumes "fvec_ok n frame" and "fvec_ok n frame'"
  shows "frame\<lparr>data := xs\<rparr> = frame'\<lparr>data := xs\<rparr>"
  using assms by (intro fvec_t.equality) (simp_all add: fvec_ok_def)

lemma no_residual_state_c:
  assumes "fft_inv n s" and "fft_inv n s'" and "0 < n" and "fvec_ok n input"
    and "cvec_ok (n div 2 + 1) sp" and "cvec_ok (n div 2 + 1) sp'"
    and "fvec_ok n frame" and "fvec_ok n frame'"
  shows "aubio_fft_do s input sp \<noteq> None
       \<and> map_option snd (aubio_fft_do s input sp) =
         map_option snd (aubio_fft_do s' input sp')
       \<and> aubio_fft_rdo s spectrum frame \<noteq> None
       \<and> map_option snd (aubio_fft_rdo s spectrum frame) =
         map_option snd (aubio_fft_rdo s' spectrum frame')"
proof -
  let ?X = "fftw_r2c n (data input)"
  let ?F = "\<lambda>old i. (if i = n div 2 then Re (?X ! (n div 2))
                else if 1 \<le> i \<and> i < n div 2 then Re (?X ! i)
                else if n - n div 2 < i then Im (?X ! (n - i))
                else if i = 0 then Re (?X ! 0)
                else old ! i)"
  from do_result [OF assms(1,4,3), of sp] obtain c where
    c: "aubio_fft_do s input sp =
            Some (s\<lparr>in_buf := data input, specdata := ?X, compspec := c\<rparr>,
                  aubio_fft_get_spectrum c sp)"
      "fvec_ok n c" "\<And>i. i < n \<Longrightarrow> data c ! i = ?F (data (compspec s)) i"
    by blast
  from do_result [OF assms(2,4,3), of sp'] obtain c' where
    c': "aubio_fft_do s' input sp' =
            Some (s'\<lparr>in_buf := data input, specdata := ?X, compspec := c'\<rparr>,
                  aubio_fft_get_spectrum c' sp')"
      "fvec_ok n c'" "\<And>i. i < n \<Longrightarrow> data c' ! i = ?F (data (compspec s')) i"
    by blast
  have half: "n div 2 < n" using assms(3) by simp
  have "aubio_fft_get_spectrum c sp = aubio_fft_get_spectrum c' sp'"
  proof (rule spectrum_cong [OF assms(5,6,3)])
    show "length_v c = n" "length_v c' = n"
      using c(2) c'(2) by (simp_all add: fvec_ok_def)
    show "data c ! 0 = data c' ! 0"
      using c(3) [of 0] c'(3) [of 0] assms(3) by simp
    show "data c ! (n div 2) = data c' ! (n div 2)"
      using c(3) [OF half] c'(3) [OF half] by simp
  next
    fix k assume k: "1 \<le> k" "k < n div 2"
    then have lt: "k < n" "n - k < n"
      and m: "n - n div 2 < n - k" "n - k \<noteq> n div 2" "\<not> n - k < n div 2"
      by linarith+
    show "data c ! k = data c' ! k \<and> data c ! (n - k) = data c' ! (n - k)"
      using k m c(3) [OF lt(1)] c'(3) [OF lt(1)] c(3) [OF lt(2)] c'(3) [OF lt(2)] by simp
  qed
  then have fwd: "aubio_fft_do s input sp \<noteq> None
       \<and> map_option snd (aubio_fft_do s input sp) =
         map_option snd (aubio_fft_do s' input sp')"
    using c(1) c'(1) by simp
  have "fvec_ok n (compspec s)" "fvec_ok n (compspec s')"
    using assms(1,2) by (simp_all add: fft_inv_def)
  then have "data (aubio_fft_get_realimag spectrum (compspec s)) =
             data (aubio_fft_get_realimag spectrum (compspec s'))"
    by (rule realimag_data_cong)
  then have "aubio_fft_rdo s spectrum frame \<noteq> None
       \<and> map_option snd (aubio_fft_rdo s spectrum frame) =
         map_option snd (aubio_fft_rdo s' spectrum frame')"
    using rdo_result [OF assms(1,7), of spectrum] rdo_result [OF assms(2,8), of spectrum]
      frame_cong [OF assms(7,8)]
    by simp
  with fwd show ?thesis by simp
qed

lemma no_residual_state_hc:
  assumes "fft_inv_hc n t" and "fft_inv_hc n t'" and "0 < n" and "fvec_ok n input"
    and "cvec_ok (n div 2 + 1) sp" and "cvec_ok (n div 2 + 1) sp'"
    and "fvec_ok n frame" and "fvec_ok n frame'"
  shows "aubio_fft_do_hc t input sp \<noteq> None
       \<and> map_option snd (aubio_fft_do_hc t input sp) =
         map_option snd (aubio_fft_do_hc t' input sp')
       \<and> aubio_fft_rdo_hc t spectrum frame \<noteq> None
       \<and> map_option snd (aubio_fft_rdo_hc t spectrum frame) =
         map_option snd (aubio_fft_rdo_hc t' spectrum frame')"
proof -
  let ?H = "fftw_r2hc n (data input)"
  have ok: "fvec_ok n (compspec t)" "fvec_ok n (compspec t')"
    using assms(1,2) by (simp_all add: fft_inv_hc_def)
  then have "aubio_fft_get_spectrum ((compspec t)\<lparr>data := ?H\<rparr>) sp =
             aubio_fft_get_spectrum ((compspec t')\<lparr>data := ?H\<rparr>) sp'"
    by (intro spectrum_cong [OF assms(5,6,3)]) (simp_all add: fvec_ok_def)
  then have fwd: "aubio_fft_do_hc t input sp \<noteq> None
       \<and> map_option snd (aubio_fft_do_hc t input sp) =
         map_option snd (aubio_fft_do_hc t' input sp')"
    using do_hc_result [OF assms(1,4), of sp] do_hc_result [OF assms(2,4), of sp']
    by simp
  have "data (aubio_fft_get_realimag spectrum (compspec t)) =
        data (aubio_fft_get_realimag spectrum (compspec t'))"
    using ok by (rule realimag_data_cong)
  then have "aubio_fft_rdo_hc t spectrum frame \<noteq> None
       \<and> map_option snd (aubio_fft_rdo_hc t spectrum frame) =
         map_option snd (aubio_fft_rdo_hc t' spectrum frame')"
    using rdo_hc_result [OF assms(1,7), of spectrum] rdo_hc_result [OF assms(2,8), of spectrum]
      frame_cong [OF assms(7,8)]
    by simp
  with fwd show ?thesis by simp
qed

text \<open>
  Claim C9 (no residual state). Two states of an instance of window size \<open>n > 0\<close> (\<open>s\<close> and
  \<open>s'\<close> in the complex build, \<open>t\<close> and \<open>t'\<close> in the other) differ at most in the contents of
  the scratch buffers (\<^verbatim>\<open>in\<close>, \<^verbatim>\<open>out\<close>, \<^verbatim>\<open>specdata\<close>, \<^verbatim>\<open>compspec\<close>), whatever earlier calls
  left there; the containers the caller hands in to be written (\<open>sp\<close> and \<open>sp'\<close> for the
  spectrum, \<open>frame\<close> and \<open>frame'\<close> for the output frame) have the right length and any
  contents. \<^verbatim>\<open>aubio_fft_do\<close> returns, and the spectrum it yields is the same in both runs on
  the same input frame; \<^verbatim>\<open>aubio_fft_rdo\<close> returns, and the frame it yields is the same in both
  runs on the same input spectrum. So the result is a function of the input alone: neither
  the instance's scratch contents nor the previous contents of the output container show in it.
\<close>

theorem no_residual_state:
  assumes "fft_inv n s" and "fft_inv n s'" and "fft_inv_hc n t" and "fft_inv_hc n t'"
    and "0 < n" and "fvec_ok n input" and "cvec_ok (n div 2 + 1) spectrum"
    and "cvec_ok (n div 2 + 1) sp" and "cvec_ok (n div 2 + 1) sp'"
    and "fvec_ok n frame" and "fvec_ok n frame'"
  shows "(aubio_fft_do s input sp \<noteq> None
       \<and> map_option snd (aubio_fft_do s input sp) =
         map_option snd (aubio_fft_do s' input sp')
       \<and> aubio_fft_rdo s spectrum frame \<noteq> None
       \<and> map_option snd (aubio_fft_rdo s spectrum frame) =
         map_option snd (aubio_fft_rdo s' spectrum frame'))
       \<and> (aubio_fft_do_hc t input sp \<noteq> None
       \<and> map_option snd (aubio_fft_do_hc t input sp) =
         map_option snd (aubio_fft_do_hc t' input sp')
       \<and> aubio_fft_rdo_hc t spectrum frame \<noteq> None
       \<and> map_option snd (aubio_fft_rdo_hc t spectrum frame) =
         map_option snd (aubio_fft_rdo_hc t' spectrum frame'))"
proof (rule conjI)
  show "aubio_fft_do s input sp \<noteq> None
       \<and> map_option snd (aubio_fft_do s input sp) =
         map_option snd (aubio_fft_do s' input sp')
       \<and> aubio_fft_rdo s spectrum frame \<noteq> None
       \<and> map_option snd (aubio_fft_rdo s spectrum frame) =
         map_option snd (aubio_fft_rdo s' spectrum frame')"
    using assms(1,2,5,6,8-11) by (rule no_residual_state_c)
  show "aubio_fft_do_hc t input sp \<noteq> None
       \<and> map_option snd (aubio_fft_do_hc t input sp) =
         map_option snd (aubio_fft_do_hc t' input sp')
       \<and> aubio_fft_rdo_hc t spectrum frame \<noteq> None
       \<and> map_option snd (aubio_fft_rdo_hc t spectrum frame) =
         map_option snd (aubio_fft_rdo_hc t' spectrum frame')"
    using assms(3,4,5,6,8-11) by (rule no_residual_state_hc)
qed

theorem no_residual_state_witness:
  "fft_inv 2 \<lparr>winsize = 2, fft_size = 2, in_buf = [0, 0], out_buf = [0, 0],
      pfw = Some (R2C, 2), pbw = Some (C2R, 2), specdata = [0, 0],
      compspec = \<lparr>length_v = 2, data = [0, 0]\<rparr>\<rparr>
   \<and> fft_inv 2 \<lparr>winsize = 2, fft_size = 2, in_buf = [5, 6], out_buf = [7, 8],
      pfw = Some (R2C, 2), pbw = Some (C2R, 2), specdata = [1, \<i>],
      compspec = \<lparr>length_v = 2, data = [9, 4]\<rparr>\<rparr>
   \<and> fft_inv_hc 2 \<lparr>winsize = 2, fft_size = 2, in_buf = [0, 0], out_buf = [0, 0],
      pfw = Some (FFTW_R2HC, 2), pbw = Some (FFTW_HC2R, 2), specdata = [0, 0],
      compspec = \<lparr>length_v = 2, data = [0, 0]\<rparr>\<rparr>
   \<and> fft_inv_hc 2 \<lparr>winsize = 2, fft_size = 2, in_buf = [5, 6], out_buf = [7, 8],
      pfw = Some (FFTW_R2HC, 2), pbw = Some (FFTW_HC2R, 2), specdata = [1, 2],
      compspec = \<lparr>length_v = 2, data = [9, 4]\<rparr>\<rparr>
   \<and> (0::nat) < 2 \<and> fvec_ok 2 \<lparr>length_v = 2, data = [3, - 1]\<rparr>
   \<and> cvec_ok (2 div 2 + 1) \<lparr>length_c = 2, norm_c = [2, 1], phas = [0, pi]\<rparr>
   \<and> cvec_ok (2 div 2 + 1) \<lparr>length_c = 2, norm_c = [0, 0], phas = [0, 0]\<rparr>
   \<and> cvec_ok (2 div 2 + 1) \<lparr>length_c = 2, norm_c = [7, 8], phas = [5, 6]\<rparr>
   \<and> fvec_ok 2 \<lparr>length_v = 2, data = [0, 0]\<rparr> \<and> fvec_ok 2 \<lparr>length_v = 2, data = [9, 4]\<rparr>
   \<and> aubio_fft_do \<lparr>winsize = 2, fft_size = 2, in_buf = [0, 0], out_buf = [0, 0],
      pfw = Some (R2C, 2), pbw = Some (C2R, 2), specdata = [0, 0],
      compspec = \<lparr>length_v = 2, data = [0, 0]\<rparr>\<rparr>
         \<lparr>length_v = 2, data = [3, - 1]\<rparr> \<lparr>length_c = 2, norm_c = [0, 0], phas = [0, 0]\<rparr> \<noteq> None
   \<and> map_option snd (aubio_fft_do \<lparr>winsize = 2, fft_size = 2, in_buf = [0, 0], out_buf = [0, 0],
      pfw = Some (R2C, 2), pbw = Some (C2R, 2), specdata = [0, 0],
      compspec = \<lparr>length_v = 2, data = [0, 0]\<rparr>\<rparr>
         \<lparr>length_v = 2, data = [3, - 1]\<rparr> \<lparr>length_c = 2, norm_c = [0, 0], phas = [0, 0]\<rparr>) =
       map_option snd (aubio_fft_do \<lparr>winsize = 2, fft_size = 2, in_buf = [5, 6], out_buf = [7, 8],
      pfw = Some (R2C, 2), pbw = Some (C2R, 2), specdata = [1, \<i>],
      compspec = \<lparr>length_v = 2, data = [9, 4]\<rparr>\<rparr>
         \<lparr>length_v = 2, data = [3, - 1]\<rparr> \<lparr>length_c = 2, norm_c = [7, 8], phas = [5, 6]\<rparr>)
   \<and> aubio_fft_rdo \<lparr>winsize = 2, fft_size = 2, in_buf = [0, 0], out_buf = [0, 0],
      pfw = Some (R2C, 2), pbw = Some (C2R, 2), specdata = [0, 0],
      compspec = \<lparr>length_v = 2, data = [0, 0]\<rparr>\<rparr>
         \<lparr>length_c = 2, norm_c = [2, 1], phas = [0, pi]\<rparr> \<lparr>length_v = 2, data = [0, 0]\<rparr> \<noteq> None
   \<and> map_option snd (aubio_fft_rdo \<lparr>winsize = 2, fft_size = 2, in_buf = [0, 0], out_buf = [0, 0],
      pfw = Some (R2C, 2), pbw = Some (C2R, 2), specdata = [0, 0],
      compspec = \<lparr>length_v = 2, data = [0, 0]\<rparr>\<rparr>
         \<lparr>length_c = 2, norm_c = [2, 1], phas = [0, pi]\<rparr> \<lparr>length_v = 2, data = [0, 0]\<rparr>) =
       map_option snd (aubio_fft_rdo \<lparr>winsize = 2, fft_size = 2, in_buf = [5, 6], out_buf = [7, 8],
      pfw = Some (R2C, 2), pbw = Some (C2R, 2), specdata = [1, \<i>],
      compspec = \<lparr>length_v = 2, data = [9, 4]\<rparr>\<rparr>
         \<lparr>length_c = 2, norm_c = [2, 1], phas = [0, pi]\<rparr> \<lparr>length_v = 2, data = [9, 4]\<rparr>)
   \<and> aubio_fft_do_hc \<lparr>winsize = 2, fft_size = 2, in_buf = [0, 0], out_buf = [0, 0],
      pfw = Some (FFTW_R2HC, 2), pbw = Some (FFTW_HC2R, 2), specdata = [0, 0],
      compspec = \<lparr>length_v = 2, data = [0, 0]\<rparr>\<rparr>
         \<lparr>length_v = 2, data = [3, - 1]\<rparr> \<lparr>length_c = 2, norm_c = [0, 0], phas = [0, 0]\<rparr> \<noteq> None
   \<and> map_option snd (aubio_fft_do_hc \<lparr>winsize = 2, fft_size = 2, in_buf = [0, 0], out_buf = [0, 0],
      pfw = Some (FFTW_R2HC, 2), pbw = Some (FFTW_HC2R, 2), specdata = [0, 0],
      compspec = \<lparr>length_v = 2, data = [0, 0]\<rparr>\<rparr>
         \<lparr>length_v = 2, data = [3, - 1]\<rparr> \<lparr>length_c = 2, norm_c = [0, 0], phas = [0, 0]\<rparr>) =
       map_option snd (aubio_fft_do_hc \<lparr>winsize = 2, fft_size = 2, in_buf = [5, 6], out_buf = [7, 8],
      pfw = Some (FFTW_R2HC, 2), pbw = Some (FFTW_HC2R, 2), specdata = [1, 2],
      compspec = \<lparr>length_v = 2, data = [9, 4]\<rparr>\<rparr>
         \<lparr>length_v = 2, data = [3, - 1]\<rparr> \<lparr>length_c = 2, norm_c = [7, 8], phas = [5, 6]\<rparr>)
   \<and> aubio_fft_rdo_hc \<lparr>winsize = 2, fft_size = 2, in_buf = [0, 0], out_buf = [0, 0],
      pfw = Some (FFTW_R2HC, 2), pbw = Some (FFTW_HC2R, 2), specdata = [0, 0],
      compspec = \<lparr>length_v = 2, data = [0, 0]\<rparr>\<rparr>
         \<lparr>length_c = 2, norm_c = [2, 1], phas = [0, pi]\<rparr> \<lparr>length_v = 2, data = [0, 0]\<rparr> \<noteq> None
   \<and> map_option snd (aubio_fft_rdo_hc \<lparr>winsize = 2, fft_size = 2, in_buf = [0, 0], out_buf = [0, 0],
      pfw = Some (FFTW_R2HC, 2), pbw = Some (FFTW_HC2R, 2), specdata = [0, 0],
      compspec = \<lparr>length_v = 2, data = [0, 0]\<rparr>\<rparr>
         \<lparr>length_c = 2, norm_c = [2, 1], phas = [0, pi]\<rparr> \<lparr>length_v = 2, data = [0, 0]\<rparr>) =
       map_option snd (aubio_fft_rdo_hc \<lparr>winsize = 2, fft_size = 2, in_buf = [5, 6], out_buf = [7, 8],
      pfw = Some (FFTW_R2HC, 2), pbw = Some (FFTW_HC2R, 2), specdata = [1, 2],
      compspec = \<lparr>length_v = 2, data = [9, 4]\<rparr>\<rparr>
         \<lparr>length_c = 2, norm_c = [2, 1], phas = [0, pi]\<rparr> \<lparr>length_v = 2, data = [9, 4]\<rparr>)"
proof -
  have h: "fft_inv 2 \<lparr>winsize = 2, fft_size = 2, in_buf = [0, 0], out_buf = [0, 0],
      pfw = Some (R2C, 2), pbw = Some (C2R, 2), specdata = [0, 0],
      compspec = \<lparr>length_v = 2, data = [0, 0]\<rparr>\<rparr>"
    "fft_inv 2 \<lparr>winsize = 2, fft_size = 2, in_buf = [5, 6], out_buf = [7, 8],
      pfw = Some (R2C, 2), pbw = Some (C2R, 2), specdata = [1, \<i>],
      compspec = \<lparr>length_v = 2, data = [9, 4]\<rparr>\<rparr>"
    "fft_inv_hc 2 \<lparr>winsize = 2, fft_size = 2, in_buf = [0, 0], out_buf = [0, 0],
      pfw = Some (FFTW_R2HC, 2), pbw = Some (FFTW_HC2R, 2), specdata = [0, 0],
      compspec = \<lparr>length_v = 2, data = [0, 0]\<rparr>\<rparr>"
    "fft_inv_hc 2 \<lparr>winsize = 2, fft_size = 2, in_buf = [5, 6], out_buf = [7, 8],
      pfw = Some (FFTW_R2HC, 2), pbw = Some (FFTW_HC2R, 2), specdata = [1, 2],
      compspec = \<lparr>length_v = 2, data = [9, 4]\<rparr>\<rparr>"
    "(0::nat) < 2" "fvec_ok 2 \<lparr>length_v = 2, data = [3, - 1]\<rparr>"
    "cvec_ok (2 div 2 + 1) \<lparr>length_c = 2, norm_c = [2, 1], phas = [0, pi]\<rparr>"
    "cvec_ok (2 div 2 + 1) \<lparr>length_c = 2, norm_c = [0, 0], phas = [0, 0]\<rparr>"
    "cvec_ok (2 div 2 + 1) \<lparr>length_c = 2, norm_c = [7, 8], phas = [5, 6]\<rparr>"
    "fvec_ok 2 \<lparr>length_v = 2, data = [0, 0]\<rparr>" "fvec_ok 2 \<lparr>length_v = 2, data = [9, 4]\<rparr>"
    by (simp_all add: fft_inv_def fft_inv_hc_def fvec_ok_def cvec_ok_def)
  from no_residual_state [OF h] show ?thesis
    using h by blast
qed

section \<open>The round trip\<close>

lemma packed_bins_of_transform:
  assumes "even n \<or> n = 1" and "0 < n" and "length c = n"
    and "\<And>i. i < n \<Longrightarrow> c ! i =
           (if i \<le> n div 2 then Re (fftw_r2c n x ! i) else Im (fftw_r2c n x ! (n - i)))"
  shows "packed_bins n c = fftw_r2c n x"
proof (rule nth_equalityI)
  show "length (packed_bins n c) = length (fftw_r2c n x)"
    by (simp add: packed_bins_length fftw_r2c_length)
next
  fix k assume "k < length (packed_bins n c)"
  then have k: "k \<le> n div 2" by (simp add: packed_bins_length)
  then have kn: "k < n" using assms(2) by linarith
  show "packed_bins n c ! k = fftw_r2c n x ! k"
  proof (cases "k = n div 2 \<or> k = 0")
    case True
    then have "Im (fftw_r2c n x ! k) = 0"
      using assms(1) by (auto simp: fftw_r2c_nth dft_dc_real dft_nyquist_real)
    then have "fftw_r2c n x ! k = complex_of_real (Re (fftw_r2c n x ! k))"
      by (simp add: complex_eq_iff)
    then show ?thesis
      using True k assms(4) [OF kn] by (simp add: packed_bins_nth)
  next
    case False
    then have "n - k < n" "\<not> n - k \<le> n div 2" "n - (n - k) = k"
      using k assms(1) by (auto elim!: evenE)
    then have "c ! (n - k) = Im (fftw_r2c n x ! k)"
      using assms(4) [of "n - k"] by simp
    moreover have "c ! k = Re (fftw_r2c n x ! k)"
      using assms(4) [OF kn] k by simp
    ultimately show ?thesis
      using False k by (simp add: packed_bins_nth complex_eq_iff)
  qed
qed

lemma roundtrip_c_identity:
  assumes "even n \<or> n = 1" and "0 < n" and "fft_inv n s"
    and "fvec_ok n input" and "cvec_ok (n div 2 + 1) spectrum" and "fvec_ok n output"
  shows "roundtrip s input spectrum output = Some (data input)"
proof -
  let ?X = "fftw_r2c n (data input)"
  from do_result [OF assms(3,4,2), of spectrum] obtain c where
    run: "aubio_fft_do s input spectrum =
            Some (s\<lparr>in_buf := data input, specdata := ?X, compspec := c\<rparr>,
                  aubio_fft_get_spectrum c spectrum)"
    and ok: "fvec_ok n c"
    and nth: "\<And>i. i < n \<Longrightarrow> data c ! i =
               (if i = n div 2 then Re (?X ! (n div 2))
                else if 1 \<le> i \<and> i < n div 2 then Re (?X ! i)
                else if n - n div 2 < i then Im (?X ! (n - i))
                else if i = 0 then Re (?X ! 0)
                else data (compspec s) ! i)"
    by blast
  define s1 where "s1 = s\<lparr>in_buf := data input, specdata := ?X, compspec := c\<rparr>"
  define sp where "sp = aubio_fft_get_spectrum c spectrum"
  have inv1: "fft_inv n s1"
    using assms(3,4) ok by (simp add: s1_def fft_inv_def fftw_r2c_length fvec_ok_def)
  have packed: "data c ! i = (if i \<le> n div 2 then Re (?X ! i) else Im (?X ! (n - i)))"
    if "i < n" for i
  proof (cases "n = 1")
    case True
    then show ?thesis using nth [OF that] that by simp
  next
    case False
    then have "n - n div 2 = n div 2" using assms(1) by (auto elim!: evenE)
    then show ?thesis using nth [OF that] by (cases "i = 0") auto
  qed
  have restored: "data (aubio_fft_get_realimag sp (compspec s1)) = data c"
    unfolding sp_def s1_def using packed_polar_packed [OF assms(1,2) ok assms(5) ok] by simp
  have bins: "packed_bins n (data c) = ?X"
    using assms(1,2) ok packed by (intro packed_bins_of_transform) (simp_all add: fvec_ok_def)
  have "map (\<lambda>j. fftw_c2r n ?X ! j * (1 / real n)) [0..<n] = data input"
  proof (rule nth_equalityI)
    show "length (map (\<lambda>j. fftw_c2r n ?X ! j * (1 / real n)) [0..<n]) = length (data input)"
      using assms(4) by (simp add: fvec_ok_def)
  next
    fix j assume "j < length (map (\<lambda>j. fftw_c2r n ?X ! j * (1 / real n)) [0..<n])"
    then have "j < n" by simp
    then show "map (\<lambda>j. fftw_c2r n ?X ! j * (1 / real n)) [0..<n] ! j = data input ! j"
      using assms(2) by (simp add: fftw_inverse)
  qed
  then have "aubio_fft_rdo s1 sp output =
         Some (s1\<lparr>compspec := aubio_fft_get_realimag sp (compspec s1),
                  specdata := ?X, out_buf := fftw_c2r n ?X\<rparr>,
               output\<lparr>data := data input\<rparr>)"
    using rdo_result [OF inv1 assms(6), of sp] by (simp add: restored bins)
  then show ?thesis
    using run by (simp add: roundtrip_def s1_def sp_def)
qed

lemma roundtrip_hc_identity:
  assumes "even n \<or> n = 1" and "0 < n" and "fft_inv_hc n s"
    and "fvec_ok n input" and "cvec_ok (n div 2 + 1) spectrum" and "fvec_ok n output"
  shows "roundtrip_hc s input spectrum output = Some (data input)"
proof -
  define c where "c = (compspec s)\<lparr>data := fftw_r2hc n (data input)\<rparr>"
  define s1 where "s1 = s\<lparr>in_buf := data input, specdata := fftw_r2hc n (data input),
                          compspec := c\<rparr>"
  define sp where "sp = aubio_fft_get_spectrum c spectrum"
  have run: "aubio_fft_do_hc s input spectrum = Some (s1, sp)"
    using do_hc_result [OF assms(3,4), of spectrum] by (simp add: s1_def sp_def c_def)
  have ok: "fvec_ok n c"
    using assms(3) by (simp add: c_def fft_inv_hc_def fvec_ok_def fftw_r2hc_length)
  have inv1: "fft_inv_hc n s1"
    using assms(3,4) ok by (simp add: s1_def fft_inv_hc_def fftw_r2hc_length fvec_ok_def)
  have restored: "data (aubio_fft_get_realimag sp (compspec s1)) = fftw_r2hc n (data input)"
    unfolding sp_def s1_def using packed_polar_packed [OF assms(1,2) ok assms(5) ok]
    by (simp add: c_def)
  have "map (\<lambda>j. fftw_hc2r n (fftw_r2hc n (data input)) ! j * (1 / real n)) [0..<n]
        = data input"
  proof (rule nth_equalityI)
    show "length (map (\<lambda>j. fftw_hc2r n (fftw_r2hc n (data input)) ! j * (1 / real n)) [0..<n])
          = length (data input)"
      using assms(4) by (simp add: fvec_ok_def)
  next
    fix j
    assume "j < length (map (\<lambda>j. fftw_hc2r n (fftw_r2hc n (data input)) ! j * (1 / real n))
                         [0..<n])"
    then have "j < n" by simp
    then show "map (\<lambda>j. fftw_hc2r n (fftw_r2hc n (data input)) ! j * (1 / real n)) [0..<n] ! j
               = data input ! j"
      using assms(2) by (simp add: fftw_hc_inverse)
  qed
  then have "aubio_fft_rdo_hc s1 sp output =
         Some (s1\<lparr>compspec := aubio_fft_get_realimag sp (compspec s1),
                  specdata := fftw_r2hc n (data input),
                  out_buf := fftw_hc2r n (fftw_r2hc n (data input))\<rparr>,
               output\<lparr>data := data input\<rparr>)"
    using rdo_hc_result [OF inv1 assms(6), of sp] by (simp add: restored)
  then show ?thesis
    using run by (simp add: roundtrip_hc_def)
qed

text \<open>
  Claim C1 (round trip). The claim is stated for every window size accepted at construction;
  \<^verbatim>\<open>new_aubio_fft\<close> accepts every size, and for odd sizes the identity fails (see the
  counterexample below). What holds: on an instance of even window size \<open>n > 0\<close> (and of
  window size \<open>1\<close>), in either build, for every frame of length \<open>n\<close>, \<^verbatim>\<open>aubio_fft_do\<close>
  followed by \<^verbatim>\<open>aubio_fft_rdo\<close> on the spectrum it produced returns, and the output frame is
  the input frame (exactly, the engine being the exact transform and its unnormalized
  inverse).
\<close>

theorem roundtrip_identity:
  assumes "even n \<or> n = 1" and "0 < n" and "fft_inv n s" and "fft_inv_hc n t"
    and "fvec_ok n input" and "cvec_ok (n div 2 + 1) spectrum" and "fvec_ok n output"
  shows "roundtrip s input spectrum output = Some (data input)
       \<and> roundtrip_hc t input spectrum output = Some (data input)"
proof (rule conjI)
  show "roundtrip s input spectrum output = Some (data input)"
    using assms(1-3,5-7) by (rule roundtrip_c_identity)
  show "roundtrip_hc t input spectrum output = Some (data input)"
    using assms(1,2,4-7) by (rule roundtrip_hc_identity)
qed

theorem roundtrip_identity_witness:
  "(even (2::nat) \<or> (2::nat) = 1) \<and> (0::nat) < 2
   \<and> fft_inv 2 \<lparr>winsize = 2, fft_size = 2, in_buf = [5, 6], out_buf = [7, 8],
      pfw = Some (R2C, 2), pbw = Some (C2R, 2), specdata = [1, \<i>],
      compspec = \<lparr>length_v = 2, data = [9, 4]\<rparr>\<rparr>
   \<and> fft_inv_hc 2 \<lparr>winsize = 2, fft_size = 2, in_buf = [5, 6], out_buf = [7, 8],
      pfw = Some (FFTW_R2HC, 2), pbw = Some (FFTW_HC2R, 2), specdata = [1, 2],
      compspec = \<lparr>length_v = 2, data = [9, 4]\<rparr>\<rparr>
   \<and> fvec_ok 2 \<lparr>length_v = 2, data = [3, - 1]\<rparr>
   \<and> cvec_ok (2 div 2 + 1) \<lparr>length_c = 2, norm_c = [2, 1], phas = [0, pi]\<rparr>
   \<and> fvec_ok 2 \<lparr>length_v = 2, data = [0, 0]\<rparr>
   \<and> roundtrip \<lparr>winsize = 2, fft_size = 2, in_buf = [5, 6], out_buf = [7, 8],
      pfw = Some (R2C, 2), pbw = Some (C2R, 2), specdata = [1, \<i>],
      compspec = \<lparr>length_v = 2, data = [9, 4]\<rparr>\<rparr>
         \<lparr>length_v = 2, data = [3, - 1]\<rparr> \<lparr>length_c = 2, norm_c = [2, 1], phas = [0, pi]\<rparr> \<lparr>length_v = 2, data = [0, 0]\<rparr>
       = Some [3, - 1]
   \<and> roundtrip_hc \<lparr>winsize = 2, fft_size = 2, in_buf = [5, 6], out_buf = [7, 8],
      pfw = Some (FFTW_R2HC, 2), pbw = Some (FFTW_HC2R, 2), specdata = [1, 2],
      compspec = \<lparr>length_v = 2, data = [9, 4]\<rparr>\<rparr>
         \<lparr>length_v = 2, data = [3, - 1]\<rparr> \<lparr>length_c = 2, norm_c = [2, 1], phas = [0, pi]\<rparr> \<lparr>length_v = 2, data = [0, 0]\<rparr>
       = Some [3, - 1]"
proof -
  have h: "even (2::nat) \<or> (2::nat) = 1" "(0::nat) < 2"
    "fft_inv 2 \<lparr>winsize = 2, fft_size = 2, in_buf = [5, 6], out_buf = [7, 8],
      pfw = Some (R2C, 2), pbw = Some (C2R, 2), specdata = [1, \<i>],
      compspec = \<lparr>length_v = 2, data = [9, 4]\<rparr>\<rparr>"
    "fft_inv_hc 2 \<lparr>winsize = 2, fft_size = 2, in_buf = [5, 6], out_buf = [7, 8],
      pfw = Some (FFTW_R2HC, 2), pbw = Some (FFTW_HC2R, 2), specdata = [1, 2],
      compspec = \<lparr>length_v = 2, data = [9, 4]\<rparr>\<rparr>"
    "fvec_ok 2 \<lparr>length_v = 2, data = [3, - 1]\<rparr>"
    "cvec_ok (2 div 2 + 1) \<lparr>length_c = 2, norm_c = [2, 1], phas = [0, pi]\<rparr>"
    "fvec_ok 2 \<lparr>length_v = 2, data = [0, 0]\<rparr>"
    by (simp_all add: fft_inv_def fft_inv_hc_def fvec_ok_def cvec_ok_def)
  from roundtrip_identity [OF h] show ?thesis
    using h by simp
qed

text \<open>
  The round trip at window size \<open>3\<close> in both builds, on the instance \<^verbatim>\<open>new_aubio_fft\<close>
  builds when the planner accepts every positive size: the imaginary part of bin \<open>1\<close> is
  dropped on the way, and the frame \<open>[0, 1, 0]\<close> comes back as \<open>[0, 1/2, 1/2]\<close>.
\<close>

lemma cos_2pi_3: "cos (2 * pi / 3) = - (1 / 2)"
proof -
  have "2 * pi / 3 = pi - pi / 3" by simp
  then have "cos (2 * pi / 3) = cos (pi - pi / 3)" by simp
  also have "\<dots> = - cos (pi / 3)" by (rule cos_pi_minus)
  finally show ?thesis by (simp add: cos_60)
qed

lemma cos_4pi_3: "cos (4 * pi / 3) = - (1 / 2)"
proof -
  have "4 * pi / 3 = pi / 3 + pi" by simp
  then have "cos (4 * pi / 3) = cos (pi / 3 + pi)" by simp
  also have "\<dots> = - cos (pi / 3)" by (rule cos_periodic_pi)
  finally show ?thesis by (simp add: cos_60)
qed

lemma cos_8pi_3: "cos (8 * pi / 3) = - (1 / 2)"
proof -
  have "8 * pi / 3 = 2 * pi / 3 + 2 * pi" by simp
  then have "cos (8 * pi / 3) = cos (2 * pi / 3 + 2 * pi)" by simp
  also have "\<dots> = cos (2 * pi / 3)" by (rule cos_periodic)
  finally show ?thesis by (simp add: cos_2pi_3)
qed

lemma for_loop_unroll: "j < n \<Longrightarrow> for_loop j n body s = for_loop (Suc j) n body (body j s)"
  by (subst for_loop.simps) simp


lemma list_update_Cons_numeral:
  "(x # xs)[numeral v := y] = x # xs[numeral v - 1 := y]"
  by (simp add: numeral_eq_Suc)

lemma sum_lessThan_3: "(\<Sum>m<(3::nat). f m) = f 0 + f 1 + (f 2 :: 'a :: comm_monoid_add)"
  by (simp add: eval_nat_numeral add.assoc)

lemma upt_0_2: "[0..<2] = [0, Suc 0]"
  by (simp add: eval_nat_numeral)

lemma upt_0_3: "[0..<3] = [0, Suc 0, 2]"
  by (simp add: eval_nat_numeral)

lemma three: "fftw_r2c 3 [0, 1, 0] = [1, cis (- (2 * pi / 3))]"
  by (simp add: fftw_r2c_def dft_def sum_lessThan_3 upt_0_2)

lemma fwd3:
  "aubio_fft_do
     \<lparr>winsize = 3, fft_size = 2, in_buf = [0, 0, 0], out_buf = [0, 0, 0],
      pfw = Some (R2C, 3), pbw = Some (C2R, 3), specdata = [0, 0],
      compspec = \<lparr>length_v = 3, data = [0, 0, 0]\<rparr>\<rparr>
     \<lparr>length_v = 3, data = [0, 1, 0]\<rparr>
     \<lparr>length_c = 2, norm_c = [0, 0], phas = [0, 0]\<rparr>
   = Some (\<lparr>winsize = 3, fft_size = 2, in_buf = [0, 1, 0], out_buf = [0, 0, 0],
      pfw = Some (R2C, 3), pbw = Some (C2R, 3), specdata = [1, cis (- (2 * pi / 3))],
      compspec = \<lparr>length_v = 3, data = [1, - (1 / 2), 0]\<rparr>\<rparr>,
      \<lparr>length_c = 2, norm_c = [1, 1 / 2], phas = [0, pi]\<rparr>)"
  by (simp add: aubio_fft_do_def aubio_fft_do_complex_def aubio_fft_get_spectrum_def
      aubio_fft_get_phas_def aubio_fft_get_norm_def Let_def for_loop_unroll for_loop_done
      three cos_2pi_3 list_update_Cons_numeral)

lemma c2r3: "fftw_c2r 3 [1, - (1 / 2)] = [0, 3 / 2, 3 / 2]"
  by (simp add: fftw_c2r_def hermitian_def sum_lessThan_3 upt_0_3 cos_2pi_3 cos_4pi_3 cos_8pi_3)

lemma bwd3:
  "aubio_fft_rdo
     \<lparr>winsize = 3, fft_size = 2, in_buf = [0, 1, 0], out_buf = [0, 0, 0],
      pfw = Some (R2C, 3), pbw = Some (C2R, 3), specdata = [1, cis (- (2 * pi / 3))],
      compspec = \<lparr>length_v = 3, data = [1, - (1 / 2), 0]\<rparr>\<rparr>
     \<lparr>length_c = 2, norm_c = [1, 1 / 2], phas = [0, pi]\<rparr>
     \<lparr>length_v = 3, data = [0, 0, 0]\<rparr>
   = Some (\<lparr>winsize = 3, fft_size = 2, in_buf = [0, 1, 0], out_buf = [0, 3 / 2, 3 / 2],
      pfw = Some (R2C, 3), pbw = Some (C2R, 3), specdata = [1, - (1 / 2)],
      compspec = \<lparr>length_v = 3, data = [1, - (1 / 2), 0]\<rparr>\<rparr>,
      \<lparr>length_v = 3, data = [0, 1 / 2, 1 / 2]\<rparr>)"
  by (simp add: aubio_fft_rdo_def aubio_fft_rdo_complex_def aubio_fft_get_realimag_def
      aubio_fft_get_real_def aubio_fft_get_imag_def Let_def for_loop_unroll for_loop_done
      c2r3 list_update_Cons_numeral)

lemma new3:
  "snd (new_aubio_fft fftw_accepts 3) =
   Some \<lparr>winsize = 3, fft_size = 2, in_buf = [0, 0, 0], out_buf = [0, 0, 0],
      pfw = Some (R2C, 3), pbw = Some (C2R, 3), specdata = [0, 0],
      compspec = \<lparr>length_v = 3, data = [0, 0, 0]\<rparr>\<rparr>"
proof -
  have "replicate 3 (0::real) = [0, 0, 0]"
    by (simp add: eval_nat_numeral)
  then show ?thesis
    by (simp add: new_aubio_fft_result fftw_plan_dft_r2c_1d_def fftw_plan_dft_c2r_1d_def
        fftw_accepts_def new_fvec_def)
qed

lemma sin_2pi_3: "sin (2 * pi / 3) = sqrt 3 / 2"
proof -
  have "2 * pi / 3 = pi - pi / 3" by simp
  then have "sin (2 * pi / 3) = sin (pi - pi / 3)" by simp
  also have "\<dots> = sin (pi / 3)" by (rule sin_pi_minus)
  finally show ?thesis by (simp add: sin_60)
qed

lemma three_hc: "fftw_r2hc 3 [0, 1, 0] = [1, - (1 / 2), - (sqrt 3 / 2)]"
  by (simp add: fftw_r2hc_def dft_def sum_lessThan_3 upt_0_3 cos_2pi_3 sin_2pi_3)

lemma fwd3_hc:
  "aubio_fft_do_hc
     \<lparr>winsize = 3, fft_size = 3, in_buf = [0, 0, 0], out_buf = [0, 0, 0],
      pfw = Some (FFTW_R2HC, 3), pbw = Some (FFTW_HC2R, 3), specdata = [0, 0, 0],
      compspec = \<lparr>length_v = 3, data = [0, 0, 0]\<rparr>\<rparr>
     \<lparr>length_v = 3, data = [0, 1, 0]\<rparr>
     \<lparr>length_c = 2, norm_c = [0, 0], phas = [0, 0]\<rparr>
   = Some (\<lparr>winsize = 3, fft_size = 3, in_buf = [0, 1, 0], out_buf = [0, 0, 0],
      pfw = Some (FFTW_R2HC, 3), pbw = Some (FFTW_HC2R, 3),
      specdata = [1, - (1 / 2), - (sqrt 3 / 2)],
      compspec = \<lparr>length_v = 3, data = [1, - (1 / 2), - (sqrt 3 / 2)]\<rparr>\<rparr>,
      \<lparr>length_c = 2, norm_c = [1, 1 / 2], phas = [0, pi]\<rparr>)"
  by (simp add: aubio_fft_do_hc_def aubio_fft_do_complex_hc_def aubio_fft_get_spectrum_def
      aubio_fft_get_phas_def aubio_fft_get_norm_def Let_def for_loop_unroll for_loop_done
      three_hc list_update_Cons_numeral)

lemma hc2r3: "fftw_hc2r 3 [1, - (1 / 2), 0] = [0, 3 / 2, 3 / 2]"
proof -
  have "halfcomplex_bins 3 [1, - (1 / 2), 0] = [1, - (1 / 2)]"
    by (simp add: halfcomplex_bins_def upt_0_2)
  then show ?thesis by (simp add: fftw_hc2r_def c2r3)
qed

lemma bwd3_hc:
  "aubio_fft_rdo_hc
     \<lparr>winsize = 3, fft_size = 3, in_buf = [0, 1, 0], out_buf = [0, 0, 0],
      pfw = Some (FFTW_R2HC, 3), pbw = Some (FFTW_HC2R, 3),
      specdata = [1, - (1 / 2), - (sqrt 3 / 2)],
      compspec = \<lparr>length_v = 3, data = [1, - (1 / 2), - (sqrt 3 / 2)]\<rparr>\<rparr>
     \<lparr>length_c = 2, norm_c = [1, 1 / 2], phas = [0, pi]\<rparr>
     \<lparr>length_v = 3, data = [0, 0, 0]\<rparr>
   = Some (\<lparr>winsize = 3, fft_size = 3, in_buf = [0, 1, 0], out_buf = [0, 3 / 2, 3 / 2],
      pfw = Some (FFTW_R2HC, 3), pbw = Some (FFTW_HC2R, 3), specdata = [1, - (1 / 2), 0],
      compspec = \<lparr>length_v = 3, data = [1, - (1 / 2), 0]\<rparr>\<rparr>,
      \<lparr>length_v = 3, data = [0, 1 / 2, 1 / 2]\<rparr>)"
  by (simp add: aubio_fft_rdo_hc_def aubio_fft_rdo_complex_hc_def aubio_fft_get_realimag_def
      aubio_fft_get_real_def aubio_fft_get_imag_def Let_def for_loop_unroll for_loop_done
      hc2r3 list_update_Cons_numeral)

lemma new3_hc:
  "snd (new_aubio_fft_hc fftw_accepts 3) =
   Some \<lparr>winsize = 3, fft_size = 3, in_buf = [0, 0, 0], out_buf = [0, 0, 0],
      pfw = Some (FFTW_R2HC, 3), pbw = Some (FFTW_HC2R, 3), specdata = [0, 0, 0],
      compspec = \<lparr>length_v = 3, data = [0, 0, 0]\<rparr>\<rparr>"
proof -
  have "replicate 3 (0::real) = [0, 0, 0]"
    by (simp add: eval_nat_numeral)
  then show ?thesis
    by (simp add: new_aubio_fft_hc_result fftw_plan_r2r_1d_def fftw_accepts_def new_fvec_def)
qed

theorem roundtrip_odd_counterexample:
  "snd (new_aubio_fft fftw_accepts 3) =
     Some \<lparr>winsize = 3, fft_size = 2, in_buf = [0, 0, 0], out_buf = [0, 0, 0],
      pfw = Some (R2C, 3), pbw = Some (C2R, 3), specdata = [0, 0],
      compspec = \<lparr>length_v = 3, data = [0, 0, 0]\<rparr>\<rparr>
   \<and> roundtrip
     \<lparr>winsize = 3, fft_size = 2, in_buf = [0, 0, 0], out_buf = [0, 0, 0],
      pfw = Some (R2C, 3), pbw = Some (C2R, 3), specdata = [0, 0],
      compspec = \<lparr>length_v = 3, data = [0, 0, 0]\<rparr>\<rparr>
     \<lparr>length_v = 3, data = [0, 1, 0]\<rparr>
     \<lparr>length_c = 2, norm_c = [0, 0], phas = [0, 0]\<rparr>
     \<lparr>length_v = 3, data = [0, 0, 0]\<rparr>
   = Some [0, 1 / 2, 1 / 2]
   \<and> snd (new_aubio_fft_hc fftw_accepts 3) =
     Some \<lparr>winsize = 3, fft_size = 3, in_buf = [0, 0, 0], out_buf = [0, 0, 0],
      pfw = Some (FFTW_R2HC, 3), pbw = Some (FFTW_HC2R, 3), specdata = [0, 0, 0],
      compspec = \<lparr>length_v = 3, data = [0, 0, 0]\<rparr>\<rparr>
   \<and> roundtrip_hc
     \<lparr>winsize = 3, fft_size = 3, in_buf = [0, 0, 0], out_buf = [0, 0, 0],
      pfw = Some (FFTW_R2HC, 3), pbw = Some (FFTW_HC2R, 3), specdata = [0, 0, 0],
      compspec = \<lparr>length_v = 3, data = [0, 0, 0]\<rparr>\<rparr>
     \<lparr>length_v = 3, data = [0, 1, 0]\<rparr>
     \<lparr>length_c = 2, norm_c = [0, 0], phas = [0, 0]\<rparr>
     \<lparr>length_v = 3, data = [0, 0, 0]\<rparr>
   = Some [0, 1 / 2, 1 / 2]"
  by (simp add: roundtrip_def fwd3 bwd3 new3 roundtrip_hc_def fwd3_hc bwd3_hc new3_hc)

end
